theory Spec2Isabelle
  imports Main "HOL-Library.Multiset"
begin

section \<open>Data model (models.py)\<close>

text \<open>
  Each mapped class of \<^verbatim>\<open>models.py\<close> is a record with the class's columns; a table is the
  list of its rows in storage order. Python integers are \<open>int\<close>, strings are \<open>string\<close>,
  nullable columns are \<open>option\<close>s. A string is the list of its characters. A
  \<^verbatim>\<open>DateTime(timezone=True)\<close> column holds instants, counted in microseconds: a value
  read from it is a timezone-aware \<^verbatim>\<open>datetime\<close>, and \<^verbatim>\<open><\<close> on two such values is the
  order of their instants.
  The \<^verbatim>\<open>created_at\<close> columns are filled by a column default at insert time and read by
  no operation; they are left out. The ORM relationship attributes are resolved by explicit
  lookups on the foreign-key columns.
\<close>

record user =
  u_id :: int
  u_email :: string
  u_full_name :: string
  u_password_hash :: string
  u_role :: string
  u_is_active :: bool

record session_token =
  st_id :: int
  st_token :: string
  st_user_id :: int
  st_expires_at :: int

record camper =
  c_id :: int
  c_first_name :: string
  c_last_name :: string
  c_date_of_birth :: "string option"
  c_emergency_info :: "string option"

record parent_camper =
  pc_id :: int
  pc_parent_user_id :: int
  pc_camper_id :: int

record camp_year =
  cy_id :: int
  cy_year :: int
  cy_is_active :: bool

record enrollment =
  e_id :: int
  e_camp_year_id :: int
  e_camper_id :: int
  e_status :: string
  e_notes :: "string option"

record group =
  g_id :: int
  g_camp_year_id :: int
  g_name :: string
  g_description :: "string option"

record group_membership =
  gm_id :: int
  gm_group_id :: int
  gm_camper_id :: int

record group_event =
  ev_id :: int
  ev_group_id :: int
  ev_title :: string
  ev_description :: "string option"
  ev_location :: "string option"
  ev_start_time :: int
  ev_end_time :: int

record db =
  users :: "user list"
  session_tokens :: "session_token list"
  campers :: "camper list"
  parent_campers :: "parent_camper list"
  camp_years :: "camp_year list"
  enrollments :: "enrollment list"
  groups :: "group list"
  group_memberships :: "group_membership list"
  group_events :: "group_event list"

section \<open>Errors\<close>

text \<open>
  \<open>HTTPException status detail\<close> is the exception the handlers raise themselves.
  \<open>IntegrityError name\<close> is what \<^verbatim>\<open>db.commit()\<close> raises when the storage engine rejects
  a row for the unique or foreign-key constraint \<open>name\<close> declared in \<^verbatim>\<open>models.py\<close>,
  \<open>DataError column\<close> what it raises when a value cannot be stored in \<open>column\<close>, and
  \<open>TypeError\<close> is Python's own, raised by a comparison. No handler catches any of the
  last three.
\<close>

datatype error =
    HTTPException int string
  | IntegrityError string
  | DataError string
  | TypeError string

section \<open>Storage layer\<close>

text \<open>
  \<^verbatim>\<open>query.filter(p).first()\<close> is the first row of the table satisfying \<open>p\<close>,
  \<^verbatim>\<open>query.filter(p).all()\<close> is \<open>filter p\<close>.
\<close>

definition first :: "('a \<Rightarrow> bool) \<Rightarrow> 'a list \<Rightarrow> 'a option" where
  "first p rows = List.find p rows"

text \<open>An integer primary key gets a value no row of the table has.\<close>

definition next_id :: "int list \<Rightarrow> int" where
  "next_id ids = fold max ids 0 + 1"

subsection \<open>Column types\<close>

text \<open>
  The storage engine is PostgreSQL (\<^verbatim>\<open>database.py\<close>). A \<^verbatim>\<open>Text\<close> column takes every string
  without a NUL character. A \<^verbatim>\<open>String(n)\<close> column takes such a string of at most \<open>n\<close>
  characters as it is; of a longer one it stores the first \<open>n\<close> characters when all the
  others are spaces, and refuses it otherwise. An \<^verbatim>\<open>Integer\<close> column holds 32 bits.
\<close>

definition text_col :: "string \<Rightarrow> string option" where
  "text_col v = (if CHR 0x00 \<in> set v then None else Some v)"

definition varchar :: "nat \<Rightarrow> string \<Rightarrow> string option" where
  "varchar n v =
     (if CHR 0x00 \<in> set v then None
      else if length v \<le> n then Some v
      else if set (drop n v) \<subseteq> {CHR '' ''} then Some (take n v)
      else None)"

definition nullable :: "(string \<Rightarrow> string option) \<Rightarrow> string option \<Rightarrow> string option option" where
  "nullable col v = (case v of None \<Rightarrow> Some None | Some x \<Rightarrow> map_option Some (col x))"

definition int4 :: "int \<Rightarrow> bool" where
  "int4 i = (- 2147483648 \<le> i \<and> i \<le> 2147483647)"

subsection \<open>Inserts\<close>

text \<open>
  Every insert of the source is the triple \<^verbatim>\<open>db.add(row); db.commit(); db.refresh(row)\<close>:
  one transaction holding one row. The functions below are that triple for each table:
  they fit the values to the column types and check the table's unique and foreign-key
  constraints, and either return the stored row with its new primary key and the new state,
  or the error with nothing stored. A string that a unique key of the table already holds
  is a value of its column: the key rejects it as it is given.
\<close>

definition insert_user :: "string \<Rightarrow> string \<Rightarrow> string \<Rightarrow> string \<Rightarrow> bool \<Rightarrow> db \<Rightarrow> error + user \<times> db" where
  "insert_user email full_name password_hash role is_active s =
     (if email \<in> set (map u_email (users s)) then Inl (IntegrityError ''uq_users_email'')
      else case varchar 255 email of
        None \<Rightarrow> Inl (DataError ''users.email'')
      | Some email' \<Rightarrow>
     (case varchar 255 full_name of
        None \<Rightarrow> Inl (DataError ''users.full_name'')
      | Some full_name' \<Rightarrow>
     (case varchar 255 password_hash of
        None \<Rightarrow> Inl (DataError ''users.password_hash'')
      | Some password_hash' \<Rightarrow>
     (case varchar 50 role of
        None \<Rightarrow> Inl (DataError ''users.role'')
      | Some role' \<Rightarrow>
          if email' \<in> set (map u_email (users s)) then Inl (IntegrityError ''uq_users_email'')
          else let row = \<lparr>u_id = next_id (map u_id (users s)), u_email = email',
                           u_full_name = full_name', u_password_hash = password_hash',
                           u_role = role', u_is_active = is_active\<rparr>
               in Inr (row, s\<lparr>users := users s @ [row]\<rparr>)))))"

definition insert_session_token :: "string \<Rightarrow> int \<Rightarrow> int \<Rightarrow> db \<Rightarrow> error + session_token \<times> db" where
  "insert_session_token token user_id expires_at s =
     (if token \<in> set (map st_token (session_tokens s)) then Inl (IntegrityError ''uq_session_token'')
      else case varchar 128 token of
        None \<Rightarrow> Inl (DataError ''session_tokens.token'')
      | Some token' \<Rightarrow>
          if token' \<in> set (map st_token (session_tokens s)) then Inl (IntegrityError ''uq_session_token'')
          else if user_id \<notin> set (map u_id (users s)) then Inl (IntegrityError ''session_tokens_user_id_fkey'')
          else let row = \<lparr>st_id = next_id (map st_id (session_tokens s)), st_token = token',
                           st_user_id = user_id, st_expires_at = expires_at\<rparr>
               in Inr (row, s\<lparr>session_tokens := session_tokens s @ [row]\<rparr>))"

definition insert_camper :: "string \<Rightarrow> string \<Rightarrow> string option \<Rightarrow> string option \<Rightarrow> db \<Rightarrow> error + camper \<times> db" where
  "insert_camper first_name last_name date_of_birth emergency_info s =
     (case varchar 120 first_name of
        None \<Rightarrow> Inl (DataError ''campers.first_name'')
      | Some first_name' \<Rightarrow>
     (case varchar 120 last_name of
        None \<Rightarrow> Inl (DataError ''campers.last_name'')
      | Some last_name' \<Rightarrow>
     (case nullable (varchar 20) date_of_birth of
        None \<Rightarrow> Inl (DataError ''campers.date_of_birth'')
      | Some date_of_birth' \<Rightarrow>
     (case nullable text_col emergency_info of
        None \<Rightarrow> Inl (DataError ''campers.emergency_info'')
      | Some emergency_info' \<Rightarrow>
          let row = \<lparr>c_id = next_id (map c_id (campers s)), c_first_name = first_name',
                      c_last_name = last_name', c_date_of_birth = date_of_birth',
                      c_emergency_info = emergency_info'\<rparr>
          in Inr (row, s\<lparr>campers := campers s @ [row]\<rparr>)))))"

definition insert_parent_camper :: "int \<Rightarrow> int \<Rightarrow> db \<Rightarrow> error + parent_camper \<times> db" where
  "insert_parent_camper parent_user_id camper_id s =
     (if (parent_user_id, camper_id) \<in> set (map (\<lambda>r. (pc_parent_user_id r, pc_camper_id r)) (parent_campers s))
      then Inl (IntegrityError ''uq_parent_camper'')
      else if parent_user_id \<notin> set (map u_id (users s)) then Inl (IntegrityError ''parent_campers_parent_user_id_fkey'')
      else if camper_id \<notin> set (map c_id (campers s)) then Inl (IntegrityError ''parent_campers_camper_id_fkey'')
      else let row = \<lparr>pc_id = next_id (map pc_id (parent_campers s)),
                       pc_parent_user_id = parent_user_id, pc_camper_id = camper_id\<rparr>
           in Inr (row, s\<lparr>parent_campers := parent_campers s @ [row]\<rparr>))"

definition insert_camp_year :: "int \<Rightarrow> bool \<Rightarrow> db \<Rightarrow> error + camp_year \<times> db" where
  "insert_camp_year year is_active s =
     (if \<not> int4 year then Inl (DataError ''camp_years.year'')
      else if year \<in> set (map cy_year (camp_years s)) then Inl (IntegrityError ''uq_camp_year'')
      else let row = \<lparr>cy_id = next_id (map cy_id (camp_years s)), cy_year = year,
                       cy_is_active = is_active\<rparr>
           in Inr (row, s\<lparr>camp_years := camp_years s @ [row]\<rparr>))"

definition insert_enrollment :: "int \<Rightarrow> int \<Rightarrow> string \<Rightarrow> string option \<Rightarrow> db \<Rightarrow> error + enrollment \<times> db" where
  "insert_enrollment camp_year_id camper_id status notes s =
     (case varchar 30 status of
        None \<Rightarrow> Inl (DataError ''enrollments.status'')
      | Some status' \<Rightarrow>
     (case nullable text_col notes of
        None \<Rightarrow> Inl (DataError ''enrollments.notes'')
      | Some notes' \<Rightarrow>
          if (camp_year_id, camper_id) \<in> set (map (\<lambda>r. (e_camp_year_id r, e_camper_id r)) (enrollments s))
          then Inl (IntegrityError ''uq_year_camper'')
          else if camp_year_id \<notin> set (map cy_id (camp_years s)) then Inl (IntegrityError ''enrollments_camp_year_id_fkey'')
          else if camper_id \<notin> set (map c_id (campers s)) then Inl (IntegrityError ''enrollments_camper_id_fkey'')
          else let row = \<lparr>e_id = next_id (map e_id (enrollments s)), e_camp_year_id = camp_year_id,
                           e_camper_id = camper_id, e_status = status', e_notes = notes'\<rparr>
               in Inr (row, s\<lparr>enrollments := enrollments s @ [row]\<rparr>)))"

definition insert_group :: "int \<Rightarrow> string \<Rightarrow> string option \<Rightarrow> db \<Rightarrow> error + group \<times> db" where
  "insert_group camp_year_id name description s =
     (if (camp_year_id, name) \<in> set (map (\<lambda>r. (g_camp_year_id r, g_name r)) (groups s))
      then Inl (IntegrityError ''uq_group_year_name'')
      else case varchar 200 name of
        None \<Rightarrow> Inl (DataError ''groups.name'')
      | Some name' \<Rightarrow>
     (case nullable text_col description of
        None \<Rightarrow> Inl (DataError ''groups.description'')
      | Some description' \<Rightarrow>
          if (camp_year_id, name') \<in> set (map (\<lambda>r. (g_camp_year_id r, g_name r)) (groups s))
          then Inl (IntegrityError ''uq_group_year_name'')
          else if camp_year_id \<notin> set (map cy_id (camp_years s)) then Inl (IntegrityError ''groups_camp_year_id_fkey'')
          else let row = \<lparr>g_id = next_id (map g_id (groups s)), g_camp_year_id = camp_year_id,
                           g_name = name', g_description = description'\<rparr>
               in Inr (row, s\<lparr>groups := groups s @ [row]\<rparr>)))"

definition insert_group_membership :: "int \<Rightarrow> int \<Rightarrow> db \<Rightarrow> error + group_membership \<times> db" where
  "insert_group_membership group_id camper_id s =
     (if (group_id, camper_id) \<in> set (map (\<lambda>r. (gm_group_id r, gm_camper_id r)) (group_memberships s))
      then Inl (IntegrityError ''uq_group_camper'')
      else if group_id \<notin> set (map g_id (groups s)) then Inl (IntegrityError ''group_memberships_group_id_fkey'')
      else if camper_id \<notin> set (map c_id (campers s)) then Inl (IntegrityError ''group_memberships_camper_id_fkey'')
      else let row = \<lparr>gm_id = next_id (map gm_id (group_memberships s)),
                       gm_group_id = group_id, gm_camper_id = camper_id\<rparr>
           in Inr (row, s\<lparr>group_memberships := group_memberships s @ [row]\<rparr>))"

definition insert_group_event ::
  "int \<Rightarrow> string \<Rightarrow> string option \<Rightarrow> string option \<Rightarrow> int \<Rightarrow> int \<Rightarrow> db \<Rightarrow> error + group_event \<times> db" where
  "insert_group_event group_id title description location start_time end_time s =
     (case varchar 255 title of
        None \<Rightarrow> Inl (DataError ''group_events.title'')
      | Some title' \<Rightarrow>
     (case nullable text_col description of
        None \<Rightarrow> Inl (DataError ''group_events.description'')
      | Some description' \<Rightarrow>
     (case nullable (varchar 255) location of
        None \<Rightarrow> Inl (DataError ''group_events.location'')
      | Some location' \<Rightarrow>
          if group_id \<notin> set (map g_id (groups s)) then Inl (IntegrityError ''group_events_group_id_fkey'')
          else let row = \<lparr>ev_id = next_id (map ev_id (group_events s)), ev_group_id = group_id,
                           ev_title = title', ev_description = description', ev_location = location',
                           ev_start_time = start_time, ev_end_time = end_time\<rparr>
               in Inr (row, s\<lparr>group_events := group_events s @ [row]\<rparr>))))"

text \<open>
  \<^verbatim>\<open>enr.status = ...; enr.notes = ...; db.commit(); db.refresh(enr)\<close> writes the two columns
  of the row with the primary key of \<open>enr\<close>.
\<close>

definition update_enrollment :: "enrollment \<Rightarrow> string \<Rightarrow> string option \<Rightarrow> db \<Rightarrow> error + enrollment \<times> db" where
  "update_enrollment enr status notes s =
     (case varchar 30 status of
        None \<Rightarrow> Inl (DataError ''enrollments.status'')
      | Some status' \<Rightarrow>
     (case nullable text_col notes of
        None \<Rightarrow> Inl (DataError ''enrollments.notes'')
      | Some notes' \<Rightarrow>
          let enr' = enr\<lparr>e_status := status', e_notes := notes'\<rparr>
          in Inr (enr', s\<lparr>enrollments := map (\<lambda>e. if e_id e = e_id enr then enr' else e)
                                              (enrollments s)\<rparr>)))"

text \<open>\<^verbatim>\<open>db.delete(tok); db.commit()\<close> removes the row with the primary key of \<open>tok\<close>.\<close>

definition delete_session_token :: "session_token \<Rightarrow> db \<Rightarrow> db" where
  "delete_session_token tok s =
     s\<lparr>session_tokens := filter (\<lambda>t. st_id t \<noteq> st_id tok) (session_tokens s)\<rparr>"

section \<open>Authentication and authorization (auth.py)\<close>

text \<open>
  \<open>now\<close> is the value of \<^verbatim>\<open>datetime.now(timezone.utc)\<close> read by the call. The function
  returns the account, if any, and the state it leaves.
\<close>

definition get_user_by_token :: "int \<Rightarrow> db \<Rightarrow> string \<Rightarrow> user option \<times> db" where
  "get_user_by_token now s token_value =
     (case first (\<lambda>t. st_token t = token_value) (session_tokens s) of
        None \<Rightarrow> (None, s)
      | Some tok \<Rightarrow>
          if st_expires_at tok < now then (None, delete_session_token tok s)
          else (first (\<lambda>u. u_id u = st_user_id tok \<and> u_is_active u) (users s), s))"

text \<open>
  The bearer scheme is created with \<^verbatim>\<open>auto_error=False\<close>: a request without an
  \<^verbatim>\<open>Authorization: Bearer\<close> header reaches \<^verbatim>\<open>require_auth\<close> with no credentials
  (\<open>None\<close>); otherwise the credentials are the token string of the header.
\<close>

definition require_auth :: "int \<Rightarrow> string option \<Rightarrow> db \<Rightarrow> (error + user) \<times> db" where
  "require_auth now credentials s =
     (case credentials of
        None \<Rightarrow> (Inl (HTTPException 401 ''Not authenticated''), s)
      | Some tv \<Rightarrow>
          if tv = [] then (Inl (HTTPException 401 ''Not authenticated''), s)
          else (case get_user_by_token now s tv of
                  (None, s') \<Rightarrow> (Inl (HTTPException 401 ''Invalid or expired token''), s')
                | (Some u, s') \<Rightarrow> (Inr u, s')))"

text \<open>
  \<^verbatim>\<open>require_role(role)\<close> returns the checker \<^verbatim>\<open>_checker\<close>, which receives the account that
  \<^verbatim>\<open>require_auth\<close> resolved.
\<close>

definition require_role :: "string \<Rightarrow> user \<Rightarrow> error + user" where
  "require_role role u =
     (if u_role u \<noteq> role
      then Inl (HTTPException 403 (''Requires role '' @ [CHR 0x27] @ role @ [CHR 0x27]))
      else Inr u)"

section \<open>Request and response shapes (schemas.py)\<close>

text \<open>
  The request bodies reach the handlers after validation by the framework; the handlers
  read their fields only. A handler that returns a mapped object returns the row.
\<close>

record register_parent_request =
  rpr_email :: string
  rpr_password :: string
  rpr_full_name :: string

record login_request =
  lr_email :: string
  lr_password :: string

record token_response =
  tr_access_token :: string
  tr_token_type :: string
  tr_expires_at :: int

record parent_create =
  pcr_email :: string
  pcr_password :: string
  pcr_full_name :: string

record camper_create =
  cc_first_name :: string
  cc_last_name :: string
  cc_date_of_birth :: "string option"
  cc_emergency_info :: "string option"

record enrollment_create =
  ec_camper_id :: int
  ec_camp_year :: int

record enrollment_update =
  eu_status :: string
  eu_notes :: "string option"

record group_create =
  gc_camp_year :: int
  gc_name :: string
  gc_description :: "string option"

record group_membership_create =
  gmc_camper_id :: int

text \<open>
  A \<^verbatim>\<open>datetime\<close> field of a request is timezone-aware or naive, as the request wrote it:
  an aware one is an instant, a naive one the reading of a wall clock, both in microseconds.
\<close>

datatype datetime = Naive int | Aware int

record group_event_create =
  gec_group_id :: int
  gec_title :: string
  gec_description :: "string option"
  gec_location :: "string option"
  gec_start_time :: datetime
  gec_end_time :: datetime

record parent_schedule_item =
  psi_camper_id :: int
  psi_camper_name :: string
  psi_group_id :: int
  psi_group_name :: string
  psi_event_id :: int
  psi_title :: string
  psi_start_time :: int
  psi_end_time :: int
  psi_location :: "string option"

section \<open>Environment\<close>

text \<open>
  The values read from the process environment at import time, and the two password
  primitives of the hashing library, are parameters of the model, and so is the time
  zone of the storage session: \<open>SESSION_TIME_ZONE cfg w\<close> is the instant at which a wall
  clock of that zone reads \<open>w\<close>.
\<close>

record env =
  APP_SEED_ADMIN_EMAIL :: string
  APP_SEED_ADMIN_PASSWORD :: string
  APP_SEED_CAMP_YEAR :: int
  TOKEN_TTL_MINUTES :: int
  hash_password :: "string \<Rightarrow> string"
  verify_password :: "string \<Rightarrow> string \<Rightarrow> bool"
  SESSION_TIME_ZONE :: "int \<Rightarrow> int"

text \<open>
  Python orders two datetimes of the same kind and raises \<^verbatim>\<open>TypeError\<close> for a naive and an
  aware one. The storage engine keeps an aware datetime as its instant and reads a naive
  one in the time zone of its session.
\<close>

definition datetime_le :: "datetime \<Rightarrow> datetime \<Rightarrow> error + bool" where
  "datetime_le a b =
     (case (a, b) of
        (Naive x, Naive y) \<Rightarrow> Inr (x \<le> y)
      | (Aware x, Aware y) \<Rightarrow> Inr (x \<le> y)
      | _ \<Rightarrow> Inl (TypeError (''can'' @ [CHR 0x27] @ ''t compare offset-naive and offset-aware datetimes'')))"

definition timestamptz :: "env \<Rightarrow> datetime \<Rightarrow> int" where
  "timestamptz cfg d = (case d of Aware i \<Rightarrow> i | Naive w \<Rightarrow> SESSION_TIME_ZONE cfg w)"

definition timedelta_minutes :: "int \<Rightarrow> int" where
  "timedelta_minutes m = m * 60000000"

text \<open>\<open>token_value\<close> is the string \<^verbatim>\<open>secrets.token_urlsafe(32)\<close> returned to the call.\<close>

definition create_token :: "env \<Rightarrow> int \<Rightarrow> string \<Rightarrow> db \<Rightarrow> user \<Rightarrow> (error + session_token) \<times> db" where
  "create_token cfg now token_value s u =
     (let expires = now + timedelta_minutes (TOKEN_TTL_MINUTES cfg)
      in case insert_session_token token_value (u_id u) expires s of
           Inl e \<Rightarrow> (Inl e, s)
         | Inr (tok, s') \<Rightarrow> (Inr tok, s'))"

section \<open>Handlers (mainoriginal.py)\<close>

text \<open>
  A handler that writes returns its result, or the exception it raises, together with the
  state that is committed when it ends; a handler that only reads returns its result.
\<close>

definition seed_admin_and_year :: "env \<Rightarrow> db \<Rightarrow> (error + unit) \<times> db" where
  "seed_admin_and_year cfg s =
     (case (case first (\<lambda>y. cy_year y = APP_SEED_CAMP_YEAR cfg) (camp_years s) of
              Some _ \<Rightarrow> Inr s
            | None \<Rightarrow> (case insert_camp_year (APP_SEED_CAMP_YEAR cfg) True s of
                         Inl e \<Rightarrow> Inl e
                       | Inr (_, s1) \<Rightarrow> Inr s1)) of
        Inl e \<Rightarrow> (Inl e, s)
      | Inr s1 \<Rightarrow>
          (case first (\<lambda>u. u_email u = APP_SEED_ADMIN_EMAIL cfg) (users s1) of
             Some _ \<Rightarrow> (Inr (), s1)
           | None \<Rightarrow>
               (case insert_user (APP_SEED_ADMIN_EMAIL cfg) ''Default Admin''
                       (hash_password cfg (APP_SEED_ADMIN_PASSWORD cfg)) ''admin'' True s1 of
                  Inl e \<Rightarrow> (Inl e, s1)
                | Inr (_, s2) \<Rightarrow> (Inr (), s2))))"

definition get_or_create_camp_year :: "db \<Rightarrow> int \<Rightarrow> (error + camp_year) \<times> db" where
  "get_or_create_camp_year s year_value =
     (case first (\<lambda>y. cy_year y = year_value) (camp_years s) of
        Some cy \<Rightarrow> (Inr cy, s)
      | None \<Rightarrow> (case insert_camp_year year_value False s of
                   Inl e \<Rightarrow> (Inl e, s)
                 | Inr (cy, s') \<Rightarrow> (Inr cy, s')))"

definition ensure_parent_owns_camper :: "db \<Rightarrow> int \<Rightarrow> int \<Rightarrow> error + unit" where
  "ensure_parent_owns_camper s parent_user_id camper_id =
     (case first (\<lambda>l. pc_parent_user_id l = parent_user_id \<and> pc_camper_id l = camper_id)
             (parent_campers s) of
        None \<Rightarrow> Inl (HTTPException 403 ''Parent does not own this camper'')
      | Some _ \<Rightarrow> Inr ())"

definition register_parent :: "env \<Rightarrow> register_parent_request \<Rightarrow> db \<Rightarrow> (error + user) \<times> db" where
  "register_parent cfg payload s =
     (case first (\<lambda>u. u_email u = rpr_email payload) (users s) of
        Some _ \<Rightarrow> (Inl (HTTPException 400 ''Email already registered''), s)
      | None \<Rightarrow>
          (case insert_user (rpr_email payload) (rpr_full_name payload)
                  (hash_password cfg (rpr_password payload)) ''parent'' True s of
             Inl e \<Rightarrow> (Inl e, s)
           | Inr (parent, s') \<Rightarrow> (Inr parent, s')))"

definition login :: "env \<Rightarrow> int \<Rightarrow> string \<Rightarrow> login_request \<Rightarrow> db \<Rightarrow> (error + token_response) \<times> db" where
  "login cfg now token_value payload s =
     (case first (\<lambda>u. u_email u = lr_email payload \<and> u_is_active u) (users s) of
        None \<Rightarrow> (Inl (HTTPException 401 ''Invalid credentials''), s)
      | Some u \<Rightarrow>
          if \<not> verify_password cfg (lr_password payload) (u_password_hash u)
          then (Inl (HTTPException 401 ''Invalid credentials''), s)
          else (case create_token cfg now token_value s u of
                  (Inl e, s') \<Rightarrow> (Inl e, s')
                | (Inr tok, s') \<Rightarrow>
                    (Inr \<lparr>tr_access_token = st_token tok, tr_token_type = ''bearer'',
                          tr_expires_at = st_expires_at tok\<rparr>, s')))"

definition me :: "user \<Rightarrow> user" where
  "me u = u"

definition admin_create_parent :: "env \<Rightarrow> parent_create \<Rightarrow> db \<Rightarrow> (error + user) \<times> db" where
  "admin_create_parent cfg payload s =
     (case first (\<lambda>u. u_email u = pcr_email payload) (users s) of
        Some _ \<Rightarrow> (Inl (HTTPException 400 ''Email already exists''), s)
      | None \<Rightarrow>
          (case insert_user (pcr_email payload) (pcr_full_name payload)
                  (hash_password cfg (pcr_password payload)) ''parent'' True s of
             Inl e \<Rightarrow> (Inl e, s)
           | Inr (parent, s') \<Rightarrow> (Inr parent, s')))"

definition admin_create_camper :: "camper_create \<Rightarrow> db \<Rightarrow> (error + camper) \<times> db" where
  "admin_create_camper payload s =
     (case insert_camper (cc_first_name payload) (cc_last_name payload)
             (cc_date_of_birth payload) (cc_emergency_info payload) s of
        Inl e \<Rightarrow> (Inl e, s)
      | Inr (c, s') \<Rightarrow> (Inr c, s'))"

definition admin_list_campers :: "db \<Rightarrow> camper list" where
  "admin_list_campers s = rev (sort_key c_id (campers s))"

text \<open>
  \<^verbatim>\<open>parent_add_child\<close> commits twice: the camper row first, then the ownership link, whose
  \<^verbatim>\<open>camper_id\<close> is the primary key the first commit assigned.
\<close>

definition parent_add_child :: "camper_create \<Rightarrow> user \<Rightarrow> db \<Rightarrow> (error + parent_camper) \<times> db" where
  "parent_add_child payload u s =
     (case insert_camper (cc_first_name payload) (cc_last_name payload)
             (cc_date_of_birth payload) (cc_emergency_info payload) s of
        Inl e \<Rightarrow> (Inl e, s)
      | Inr (c, s1) \<Rightarrow>
          (case insert_parent_camper (u_id u) (c_id c) s1 of
             Inl e \<Rightarrow> (Inl e, s1)
           | Inr (link, s2) \<Rightarrow> (Inr link, s2)))"

definition parent_list_children :: "user \<Rightarrow> db \<Rightarrow> parent_camper list" where
  "parent_list_children u s =
     rev (sort_key pc_id (filter (\<lambda>l. pc_parent_user_id l = u_id u) (parent_campers s)))"

definition parent_enroll :: "enrollment_create \<Rightarrow> user \<Rightarrow> db \<Rightarrow> (error + enrollment) \<times> db" where
  "parent_enroll payload u s =
     (case ensure_parent_owns_camper s (u_id u) (ec_camper_id payload) of
        Inl e \<Rightarrow> (Inl e, s)
      | Inr _ \<Rightarrow>
          (case get_or_create_camp_year s (ec_camp_year payload) of
             (Inl e, s1) \<Rightarrow> (Inl e, s1)
           | (Inr cy, s1) \<Rightarrow>
               (case first (\<lambda>e. e_camp_year_id e = cy_id cy \<and> e_camper_id e = ec_camper_id payload)
                       (enrollments s1) of
                  Some _ \<Rightarrow> (Inl (HTTPException 400 ''Already enrolled for this camp year''), s1)
                | None \<Rightarrow>
                    (case insert_enrollment (cy_id cy) (ec_camper_id payload) ''pending'' None s1 of
                       Inl e \<Rightarrow> (Inl e, s1)
                     | Inr (enr, s2) \<Rightarrow> (Inr enr, s2)))))"

text \<open>
  A query for one mapped class over joins returns each row of that class once, namely when
  the join finds a partner for it: the joins below are therefore filters on the first table.
\<close>

definition parent_list_enrollments :: "user \<Rightarrow> int option \<Rightarrow> db \<Rightarrow> enrollment list" where
  "parent_list_enrollments u camp_year s =
     (let q = filter (\<lambda>e. \<exists>c \<in> set (campers s). c_id c = e_camper_id e \<and>
                        (\<exists>l \<in> set (parent_campers s). pc_camper_id l = c_id c \<and>
                                                        pc_parent_user_id l = u_id u))
                (enrollments s)
      in case camp_year of
           None \<Rightarrow> rev (sort_key e_id q)
         | Some y \<Rightarrow>
             (case first (\<lambda>cy. cy_year cy = y) (camp_years s) of
                None \<Rightarrow> []
              | Some cy \<Rightarrow> rev (sort_key e_id (filter (\<lambda>e. e_camp_year_id e = cy_id cy) q))))"

definition parent_update_enrollment ::
  "int \<Rightarrow> enrollment_update \<Rightarrow> user \<Rightarrow> db \<Rightarrow> (error + enrollment) \<times> db" where
  "parent_update_enrollment enrollment_id payload u s =
     (case first (\<lambda>e. e_id e = enrollment_id) (enrollments s) of
        None \<Rightarrow> (Inl (HTTPException 404 ''Enrollment not found''), s)
      | Some enr \<Rightarrow>
          (case ensure_parent_owns_camper s (u_id u) (e_camper_id enr) of
             Inl e \<Rightarrow> (Inl e, s)
           | Inr _ \<Rightarrow>
               (case update_enrollment enr (eu_status payload) (eu_notes payload) s of
                  Inl e \<Rightarrow> (Inl e, s)
                | Inr (enr', s') \<Rightarrow> (Inr enr', s'))))"

definition admin_create_group :: "group_create \<Rightarrow> db \<Rightarrow> (error + group) \<times> db" where
  "admin_create_group payload s =
     (case get_or_create_camp_year s (gc_camp_year payload) of
        (Inl e, s1) \<Rightarrow> (Inl e, s1)
      | (Inr cy, s1) \<Rightarrow>
          (case insert_group (cy_id cy) (gc_name payload) (gc_description payload) s1 of
             Inl e \<Rightarrow> (Inl e, s1)
           | Inr (g, s2) \<Rightarrow> (Inr g, s2)))"

definition admin_list_groups :: "int option \<Rightarrow> db \<Rightarrow> group list" where
  "admin_list_groups camp_year s =
     rev (sort_key g_id
       (filter (\<lambda>g. \<exists>cy \<in> set (camp_years s). cy_id cy = g_camp_year_id g \<and>
                       (case camp_year of None \<Rightarrow> True | Some y \<Rightarrow> cy_year cy = y))
          (groups s)))"

definition admin_add_group_member ::
  "int \<Rightarrow> group_membership_create \<Rightarrow> db \<Rightarrow> (error + group_membership) \<times> db" where
  "admin_add_group_member group_id payload s =
     (case first (\<lambda>g. g_id g = group_id) (groups s) of
        None \<Rightarrow> (Inl (HTTPException 404 ''Group not found''), s)
      | Some _ \<Rightarrow>
          (case first (\<lambda>c. c_id c = gmc_camper_id payload) (campers s) of
             None \<Rightarrow> (Inl (HTTPException 404 ''Camper not found''), s)
           | Some _ \<Rightarrow>
               (case first (\<lambda>m. gm_group_id m = group_id \<and> gm_camper_id m = gmc_camper_id payload)
                       (group_memberships s) of
                  Some _ \<Rightarrow> (Inl (HTTPException 400 ''Camper already in group''), s)
                | None \<Rightarrow>
                    (case insert_group_membership group_id (gmc_camper_id payload) s of
                       Inl e \<Rightarrow> (Inl e, s)
                     | Inr (m, s') \<Rightarrow> (Inr m, s')))))"

definition admin_create_event :: "env \<Rightarrow> group_event_create \<Rightarrow> db \<Rightarrow> (error + group_event) \<times> db" where
  "admin_create_event cfg payload s =
     (case first (\<lambda>g. g_id g = gec_group_id payload) (groups s) of
        None \<Rightarrow> (Inl (HTTPException 404 ''Group not found''), s)
      | Some _ \<Rightarrow>
          (case datetime_le (gec_end_time payload) (gec_start_time payload) of
             Inl e \<Rightarrow> (Inl e, s)
           | Inr True \<Rightarrow> (Inl (HTTPException 400 ''end_time must be after start_time''), s)
           | Inr False \<Rightarrow>
               (case insert_group_event (gec_group_id payload) (gec_title payload)
                       (gec_description payload) (gec_location payload)
                       (timestamptz cfg (gec_start_time payload))
                       (timestamptz cfg (gec_end_time payload)) s of
                  Inl e \<Rightarrow> (Inl e, s)
                | Inr (ev, s') \<Rightarrow> (Inr ev, s'))))"

text \<open>
  The events that the join with \<^verbatim>\<open>Group\<close> and \<^verbatim>\<open>CampYear\<close> keeps, with the optional
  filter on the year of the group's camp year.
\<close>

definition event_join :: "int option \<Rightarrow> db \<Rightarrow> group_event list" where
  "event_join camp_year s =
     filter (\<lambda>ev. \<exists>g \<in> set (groups s). g_id g = ev_group_id ev \<and>
                    (\<exists>cy \<in> set (camp_years s). cy_id cy = g_camp_year_id g \<and>
                       (case camp_year of None \<Rightarrow> True | Some y \<Rightarrow> cy_year cy = y)))
       (group_events s)"

definition admin_list_events :: "int option \<Rightarrow> int option \<Rightarrow> db \<Rightarrow> group_event list" where
  "admin_list_events group_id camp_year s =
     sort_key ev_start_time
       (filter (\<lambda>ev. case group_id of None \<Rightarrow> True | Some gid \<Rightarrow> ev_group_id ev = gid)
          (event_join camp_year s))"

subsection \<open>The parent's schedule view\<close>

text \<open>
  The dictionaries \<^verbatim>\<open>groups\<close> and \<^verbatim>\<open>campers\<close> are only read with \<^verbatim>\<open>.get\<close>: they are maps
  in which a later row replaces an earlier one with the same key. \<^verbatim>\<open>camper_groups\<close> is
  iterated with \<^verbatim>\<open>.items()\<close>, which follows the order in which the keys were first
  inserted: it is an association list in that order.
\<close>

definition dict_of :: "('a \<Rightarrow> 'k) \<Rightarrow> 'a list \<Rightarrow> 'k \<rightharpoonup> 'a" where
  "dict_of key rows = map_of (rev (map (\<lambda>r. (key r, r)) rows))"

fun setdefault_add :: "('k \<times> 'v set) list \<Rightarrow> 'k \<Rightarrow> 'v \<Rightarrow> ('k \<times> 'v set) list" where
  "setdefault_add [] k v = [(k, {v})]"
| "setdefault_add ((k', vs) # kvs) k v =
     (if k' = k then (k', insert v vs) # kvs else (k', vs) # setdefault_add kvs k v)"

definition camper_groups_of :: "group_membership list \<Rightarrow> (int \<times> int set) list" where
  "camper_groups_of memberships =
     fold (\<lambda>m acc. setdefault_add acc (gm_camper_id m) (gm_group_id m)) memberships []"

definition schedule_item :: "int \<Rightarrow> camper \<Rightarrow> group \<Rightarrow> group_event \<Rightarrow> parent_schedule_item" where
  "schedule_item cid camper grp ev =
     \<lparr>psi_camper_id = cid,
      psi_camper_name = c_first_name camper @ '' '' @ c_last_name camper,
      psi_group_id = g_id grp,
      psi_group_name = g_name grp,
      psi_event_id = ev_id ev,
      psi_title = ev_title ev,
      psi_start_time = ev_start_time ev,
      psi_end_time = ev_end_time ev,
      psi_location = ev_location ev\<rparr>"

text \<open>The body of the inner loop, for one event and one entry of \<^verbatim>\<open>camper_groups\<close>.\<close>

definition schedule_entry ::
  "(int \<rightharpoonup> camper) \<Rightarrow> (int \<rightharpoonup> group) \<Rightarrow> group_event \<Rightarrow> int \<times> int set \<Rightarrow> parent_schedule_item list" where
  "schedule_entry campers_d groups_d ev entry =
     (case entry of (cid, gids) \<Rightarrow>
        if ev_group_id ev \<in> gids then
          (case campers_d cid of
             None \<Rightarrow> []
           | Some camper \<Rightarrow>
               (case groups_d (ev_group_id ev) of
                  None \<Rightarrow> []
                | Some grp \<Rightarrow> [schedule_item cid camper grp ev]))
        else [])"

definition schedule_out ::
  "(int \<rightharpoonup> camper) \<Rightarrow> (int \<rightharpoonup> group) \<Rightarrow> (int \<times> int set) list \<Rightarrow> group_event list
   \<Rightarrow> parent_schedule_item list" where
  "schedule_out campers_d groups_d camper_groups events =
     concat (map (\<lambda>ev. concat (map (schedule_entry campers_d groups_d ev) camper_groups)) events)"

definition parent_view_schedule ::
  "int option \<Rightarrow> int option \<Rightarrow> user \<Rightarrow> db \<Rightarrow> error + parent_schedule_item list" where
  "parent_view_schedule camper_id camp_year u s =
     (let owned = map pc_camper_id
                    (filter (\<lambda>l. pc_parent_user_id l = u_id u) (parent_campers s))
      in if owned = [] then Inr []
         else if (case camper_id of None \<Rightarrow> False | Some cid \<Rightarrow> cid \<notin> set owned)
         then Inl (HTTPException 403 ''Parent does not own this camper'')
         else
           (let camper_ids = (case camper_id of None \<Rightarrow> owned | Some cid \<Rightarrow> [cid]);
                memberships = filter (\<lambda>m. gm_camper_id m \<in> set camper_ids) (group_memberships s)
            in if memberships = [] then Inr []
               else
                 (let group_ids = remdups (map gm_group_id memberships);
                      events = sort_key ev_start_time
                                 (filter (\<lambda>ev. ev_group_id ev \<in> set group_ids)
                                    (event_join camp_year s));
                      groups_d = dict_of g_id (filter (\<lambda>g. g_id g \<in> set group_ids) (groups s));
                      campers_d = dict_of c_id (filter (\<lambda>c. c_id c \<in> set camper_ids) (campers s));
                      camper_groups = camper_groups_of memberships
                  in Inr (schedule_out campers_d groups_d camper_groups events))))"

section \<open>Routes\<close>

text \<open>
  A route declared with \<^verbatim>\<open>dependencies=[Depends(require_role(r))]\<close> runs \<^verbatim>\<open>require_auth\<close>
  and the role check before its handler; the handler's own \<^verbatim>\<open>Depends(require_auth)\<close> is
  the account resolved then. A request is the route with its path, query and body
  parameters; the bearer credentials, the clock and the random token of a login are given
  beside it. The routes are taken as they are declared: the decorator of
  \<^verbatim>\<open>admin_add_group_member\<close> names the response model \<^verbatim>\<open>GroupMemberOut\<close>, which
  \<^verbatim>\<open>schemas.py\<close> defines and the import list of \<^verbatim>\<open>mainoriginal.py\<close> leaves out.
\<close>

datatype request =
    RegisterParent register_parent_request
  | Login login_request
  | Me
  | AdminCreateParent parent_create
  | AdminCreateCamper camper_create
  | AdminListCampers
  | ParentAddChild camper_create
  | ParentListChildren
  | ParentEnroll enrollment_create
  | ParentListEnrollments "int option"
  | ParentUpdateEnrollment int enrollment_update
  | AdminCreateGroup group_create
  | AdminListGroups "int option"
  | AdminAddGroupMember int group_membership_create
  | AdminCreateEvent group_event_create
  | AdminListEvents "int option" "int option"
  | ParentViewSchedule "int option" "int option"

datatype response =
    UserOut user
  | TokenResponse token_response
  | CamperOut camper
  | CamperListOut "camper list"
  | ParentCamperLinkOut parent_camper
  | ParentCamperLinkListOut "parent_camper list"
  | EnrollmentOut enrollment
  | EnrollmentListOut "enrollment list"
  | GroupOut group
  | GroupListOut "group list"
  | GroupMemberOut group_membership
  | GroupEventOut group_event
  | GroupEventListOut "group_event list"
  | ParentScheduleOut "parent_schedule_item list"

definition with_auth ::
  "int \<Rightarrow> string option \<Rightarrow> db \<Rightarrow> (user \<Rightarrow> db \<Rightarrow> (error + 'a) \<times> db) \<Rightarrow> (error + 'a) \<times> db" where
  "with_auth now credentials s handler =
     (case require_auth now credentials s of
        (Inl e, s') \<Rightarrow> (Inl e, s')
      | (Inr u, s') \<Rightarrow> handler u s')"

definition with_role ::
  "string \<Rightarrow> int \<Rightarrow> string option \<Rightarrow> db \<Rightarrow> (user \<Rightarrow> db \<Rightarrow> (error + 'a) \<times> db) \<Rightarrow> (error + 'a) \<times> db" where
  "with_role role now credentials s handler =
     with_auth now credentials s
       (\<lambda>u s'. case require_role role u of
                  Inl e \<Rightarrow> (Inl e, s')
                | Inr u' \<Rightarrow> handler u' s')"

definition respond :: "('a \<Rightarrow> response) \<Rightarrow> (error + 'a) \<times> db \<Rightarrow> (error + response) \<times> db" where
  "respond out r = (case r of (Inl e, s) \<Rightarrow> (Inl e, s) | (Inr x, s) \<Rightarrow> (Inr (out x), s))"

fun app :: "env \<Rightarrow> int \<Rightarrow> string \<Rightarrow> string option \<Rightarrow> request \<Rightarrow> db \<Rightarrow> (error + response) \<times> db" where
  "app cfg now rnd cred (RegisterParent payload) s =
     respond UserOut (register_parent cfg payload s)"
| "app cfg now rnd cred (Login payload) s =
     respond TokenResponse (login cfg now rnd payload s)"
| "app cfg now rnd cred Me s =
     respond UserOut (with_auth now cred s (\<lambda>u s'. (Inr (me u), s')))"
| "app cfg now rnd cred (AdminCreateParent payload) s =
     respond UserOut (with_role ''admin'' now cred s (\<lambda>u. admin_create_parent cfg payload))"
| "app cfg now rnd cred (AdminCreateCamper payload) s =
     respond CamperOut (with_role ''admin'' now cred s (\<lambda>u. admin_create_camper payload))"
| "app cfg now rnd cred AdminListCampers s =
     respond CamperListOut (with_role ''admin'' now cred s (\<lambda>u s'. (Inr (admin_list_campers s'), s')))"
| "app cfg now rnd cred (ParentAddChild payload) s =
     respond ParentCamperLinkOut (with_role ''parent'' now cred s (parent_add_child payload))"
| "app cfg now rnd cred ParentListChildren s =
     respond ParentCamperLinkListOut
       (with_role ''parent'' now cred s (\<lambda>u s'. (Inr (parent_list_children u s'), s')))"
| "app cfg now rnd cred (ParentEnroll payload) s =
     respond EnrollmentOut (with_role ''parent'' now cred s (parent_enroll payload))"
| "app cfg now rnd cred (ParentListEnrollments camp_year) s =
     respond EnrollmentListOut
       (with_role ''parent'' now cred s (\<lambda>u s'. (Inr (parent_list_enrollments u camp_year s'), s')))"
| "app cfg now rnd cred (ParentUpdateEnrollment enrollment_id payload) s =
     respond EnrollmentOut
       (with_role ''parent'' now cred s (parent_update_enrollment enrollment_id payload))"
| "app cfg now rnd cred (AdminCreateGroup payload) s =
     respond GroupOut (with_role ''admin'' now cred s (\<lambda>u. admin_create_group payload))"
| "app cfg now rnd cred (AdminListGroups camp_year) s =
     respond GroupListOut
       (with_role ''admin'' now cred s (\<lambda>u s'. (Inr (admin_list_groups camp_year s'), s')))"
| "app cfg now rnd cred (AdminAddGroupMember group_id payload) s =
     respond GroupMemberOut
       (with_role ''admin'' now cred s (\<lambda>u. admin_add_group_member group_id payload))"
| "app cfg now rnd cred (AdminCreateEvent payload) s =
     respond GroupEventOut (with_role ''admin'' now cred s (\<lambda>u. admin_create_event cfg payload))"
| "app cfg now rnd cred (AdminListEvents group_id camp_year) s =
     respond GroupEventListOut
       (with_role ''admin'' now cred s (\<lambda>u s'. (Inr (admin_list_events group_id camp_year s'), s')))"
| "app cfg now rnd cred (ParentViewSchedule camper_id camp_year) s =
     respond ParentScheduleOut
       (with_role ''parent'' now cred s (\<lambda>u s'. (parent_view_schedule camper_id camp_year u s', s')))"

text \<open>The role a route names in its \<^verbatim>\<open>dependencies\<close>, if it names one.\<close>

fun required_role :: "request \<Rightarrow> string option" where
  "required_role (RegisterParent _) = None"
| "required_role (Login _) = None"
| "required_role Me = None"
| "required_role (AdminCreateParent _) = Some ''admin''"
| "required_role (AdminCreateCamper _) = Some ''admin''"
| "required_role AdminListCampers = Some ''admin''"
| "required_role (ParentAddChild _) = Some ''parent''"
| "required_role ParentListChildren = Some ''parent''"
| "required_role (ParentEnroll _) = Some ''parent''"
| "required_role (ParentListEnrollments _) = Some ''parent''"
| "required_role (ParentUpdateEnrollment _ _) = Some ''parent''"
| "required_role (AdminCreateGroup _) = Some ''admin''"
| "required_role (AdminListGroups _) = Some ''admin''"
| "required_role (AdminAddGroupMember _ _) = Some ''admin''"
| "required_role (AdminCreateEvent _) = Some ''admin''"
| "required_role (AdminListEvents _ _) = Some ''admin''"
| "required_role (ParentViewSchedule _ _) = Some ''parent''"

section \<open>Properties of states\<close>

text \<open>
  Every account is a parent, except an administrator that carries the seed e-mail address
  of the configuration, as the e-mail column stores it.
\<close>

definition role_invariant :: "env \<Rightarrow> db \<Rightarrow> bool" where
  "role_invariant cfg s =
     list_all (\<lambda>u. u_role u = ''parent'' \<or>
                    (u_role u = ''admin'' \<and>
                     varchar 255 (APP_SEED_ADMIN_EMAIL cfg) = Some (u_email u)))
       (users s)"

section \<open>A sample camp\<close>

text \<open>
  The state of the schedule example: parent \<open>P\<close> owns the campers \<open>A\<close> and \<open>B\<close>; \<open>A\<close> is in
  group \<open>G1\<close>, \<open>B\<close> in \<open>G1\<close> and \<open>G2\<close>; \<open>G1\<close> has the event \<open>E1\<close> and \<open>G2\<close> the later event
  \<open>E2\<close>. Parent \<open>Q\<close> owns no camper, account \<open>R\<close> is inactive. Instants are small numbers;
  the sample clock reads \<open>1000\<close>.
\<close>

definition sample_env :: env where
  "sample_env = \<lparr>APP_SEED_ADMIN_EMAIL = ''admin@camp.local'',
                  APP_SEED_ADMIN_PASSWORD = ''admin1234'',
                  APP_SEED_CAMP_YEAR = 2026,
                  TOKEN_TTL_MINUTES = 720,
                  hash_password = (\<lambda>p. ''h:'' @ p),
                  verify_password = (\<lambda>p h. h = ''h:'' @ p),
                  SESSION_TIME_ZONE = (\<lambda>w. w)\<rparr>"

definition user_admin :: user where
  "user_admin = \<lparr>u_id = 1, u_email = ''admin@camp.local'', u_full_name = ''Default Admin'',
                  u_password_hash = ''h:admin1234'', u_role = ''admin'', u_is_active = True\<rparr>"

definition user_P :: user where
  "user_P = \<lparr>u_id = 2, u_email = ''p@x.org'', u_full_name = ''Pat'',
              u_password_hash = ''h:secretP'', u_role = ''parent'', u_is_active = True\<rparr>"

definition user_Q :: user where
  "user_Q = \<lparr>u_id = 3, u_email = ''q@x.org'', u_full_name = ''Quinn'',
              u_password_hash = ''h:secretQ'', u_role = ''parent'', u_is_active = True\<rparr>"

definition user_R :: user where
  "user_R = \<lparr>u_id = 4, u_email = ''r@x.org'', u_full_name = ''Robin'',
              u_password_hash = ''h:secretR'', u_role = ''parent'', u_is_active = False\<rparr>"

definition token_P :: session_token where
  "token_P = \<lparr>st_id = 1, st_token = ''tokP'', st_user_id = 2, st_expires_at = 5000\<rparr>"

definition token_old :: session_token where
  "token_old = \<lparr>st_id = 2, st_token = ''tokOld'', st_user_id = 2, st_expires_at = 999\<rparr>"

definition token_admin :: session_token where
  "token_admin = \<lparr>st_id = 3, st_token = ''tokAdmin'', st_user_id = 1, st_expires_at = 5000\<rparr>"

definition token_R :: session_token where
  "token_R = \<lparr>st_id = 4, st_token = ''tokR'', st_user_id = 4, st_expires_at = 5000\<rparr>"

definition token_Q :: session_token where
  "token_Q = \<lparr>st_id = 5, st_token = ''tokQ'', st_user_id = 3, st_expires_at = 1000\<rparr>"

definition camper_A :: camper where
  "camper_A = \<lparr>c_id = 1, c_first_name = ''Ann'', c_last_name = ''Lee'',
                c_date_of_birth = None, c_emergency_info = None\<rparr>"

definition camper_B :: camper where
  "camper_B = \<lparr>c_id = 2, c_first_name = ''Bo'', c_last_name = ''Lee'',
                c_date_of_birth = Some ''2015-05-01'', c_emergency_info = None\<rparr>"

definition group_G1 :: group where
  "group_G1 = \<lparr>g_id = 1, g_camp_year_id = 1, g_name = ''Red'', g_description = None\<rparr>"

definition group_G2 :: group where
  "group_G2 = \<lparr>g_id = 2, g_camp_year_id = 1, g_name = ''Blue'', g_description = None\<rparr>"

definition event_E1 :: group_event where
  "event_E1 = \<lparr>ev_id = 1, ev_group_id = 1, ev_title = ''Swim'', ev_description = None,
                ev_location = Some ''Lake'', ev_start_time = 1000, ev_end_time = 1100\<rparr>"

definition event_E2 :: group_event where
  "event_E2 = \<lparr>ev_id = 2, ev_group_id = 2, ev_title = ''Hike'', ev_description = None,
                ev_location = None, ev_start_time = 1400, ev_end_time = 1500\<rparr>"

definition sample_db :: db where
  "sample_db =
     \<lparr>users = [user_admin, user_P, user_Q, user_R],
      session_tokens = [token_P, token_old, token_admin, token_R, token_Q],
      campers = [camper_A, camper_B],
      parent_campers = [\<lparr>pc_id = 1, pc_parent_user_id = 2, pc_camper_id = 1\<rparr>,
                        \<lparr>pc_id = 2, pc_parent_user_id = 2, pc_camper_id = 2\<rparr>],
      camp_years = [\<lparr>cy_id = 1, cy_year = 2026, cy_is_active = True\<rparr>],
      enrollments = [\<lparr>e_id = 1, e_camp_year_id = 1, e_camper_id = 1, e_status = ''admitted'',
                      e_notes = None\<rparr>],
      groups = [group_G1, group_G2],
      group_memberships = [\<lparr>gm_id = 1, gm_group_id = 1, gm_camper_id = 1\<rparr>,
                           \<lparr>gm_id = 2, gm_group_id = 1, gm_camper_id = 2\<rparr>,
                           \<lparr>gm_id = 3, gm_group_id = 2, gm_camper_id = 2\<rparr>],
      group_events = [event_E2, event_E1]\<rparr>"

text \<open>The empty store, before anything is seeded.\<close>

definition empty_db :: db where
  "empty_db = \<lparr>users = [], session_tokens = [], campers = [], parent_campers = [],
                camp_years = [], enrollments = [], groups = [], group_memberships = [],
                group_events = []\<rparr>"

text \<open>
  Sample requests: a new child, a new event for group \<open>G2\<close>, and an enrollment of camper
  \<open>B\<close> for a camp year that does not exist yet.
\<close>

definition child_C :: camper_create where
  "child_C = \<lparr>cc_first_name = ''Cy'', cc_last_name = ''Lee'', cc_date_of_birth = None,
               cc_emergency_info = None\<rparr>"

definition event_new :: group_event_create where
  "event_new = \<lparr>gec_group_id = 2, gec_title = ''Art'', gec_description = None,
                 gec_location = Some ''Hall'', gec_start_time = Aware 2000,
                 gec_end_time = Aware 2100\<rparr>"

definition enroll_B :: enrollment_create where
  "enroll_B = \<lparr>ec_camper_id = 2, ec_camp_year = 2027\<rparr>"

section \<open>Auxiliary facts\<close>

lemma first_distinct_key:
  "distinct (map f xs) \<Longrightarrow> x \<in> set xs \<Longrightarrow> first (\<lambda>t. f t = f x) xs = Some x"
  unfolding first_def
  by (induction xs) (auto simp: image_iff)

lemma first_distinct_key_pred:
  "distinct (map f xs) \<Longrightarrow> x \<in> set xs \<Longrightarrow> p x \<Longrightarrow> first (\<lambda>t. f t = f x \<and> p t) xs = Some x"
  unfolding first_def
  by (induction xs) (auto simp: image_iff)

lemma first_None_iff: "first p xs = None \<longleftrightarrow> (\<forall>x \<in> set xs. \<not> p x)"
  unfolding first_def by (auto simp: find_None_iff)

lemma first_Some_holds: "first p xs = Some x \<Longrightarrow> x \<in> set xs \<and> p x"
  unfolding first_def by (auto simp: find_Some_iff)

lemma first_key_cases:
  "(k \<notin> set (map f xs) \<and> first (\<lambda>t. f t = k) xs = None) \<or>
   (\<exists>x. x \<in> set xs \<and> f x = k \<and> first (\<lambda>t. f t = k) xs = Some x)"
  unfolding first_def by (induction xs) auto

lemma token_gone_after_delete:
  "distinct (map st_token (session_tokens s)) \<Longrightarrow> tok \<in> set (session_tokens s) \<Longrightarrow>
   st_token tok \<notin> set (map st_token (session_tokens (delete_session_token tok s)))"
proof -
  assume d: "distinct (map st_token (session_tokens s))" and m: "tok \<in> set (session_tokens s)"
  have "t = tok" if "t \<in> set (session_tokens s)" "st_token t = st_token tok" for t
    using d m that by (meson distinct_map inj_onD)
  then show ?thesis
    by (auto simp: delete_session_token_def)
qed

lemmas sample_defs = sample_db_def user_admin_def user_P_def user_Q_def user_R_def
  token_P_def token_old_def token_admin_def token_R_def token_Q_def camper_A_def camper_B_def
  group_G1_def group_G2_def event_E1_def event_E2_def child_C_def event_new_def enroll_B_def

section \<open>Token resolution\<close>

text \<open>
  Claim C2. Let the token values of the stored tokens be distinct (the constraint
  \<^verbatim>\<open>uq_session_token\<close>). For a stored token whose expiry instant is before the clock,
  \<^verbatim>\<open>get_user_by_token\<close> returns no account and leaves the state without the token row; no
  row with that token value remains, so a second call, at any later clock, again returns no
  account, and \<^verbatim>\<open>require_auth\<close> answers 401 both times. A token value that is not stored,
  and a stored token that has not expired whose account is inactive, give no account and
  a 401 as well, with the state unchanged. (\<^verbatim>\<open>require_auth\<close> does not look up the empty
  token string: it answers 401 at once.)
\<close>

theorem expired_token_is_deleted_and_rejected:
  "(distinct (map st_token (session_tokens s)) \<and> tok \<in> set (session_tokens s) \<and>
    st_expires_at tok < now \<longrightarrow>
      get_user_by_token now s (st_token tok) = (None, delete_session_token tok s) \<and>
      tok \<notin> set (session_tokens (delete_session_token tok s)) \<and>
      st_token tok \<notin> set (map st_token (session_tokens (delete_session_token tok s))) \<and>
      get_user_by_token now' (delete_session_token tok s) (st_token tok)
        = (None, delete_session_token tok s) \<and>
      (\<exists>d. fst (require_auth now (Some (st_token tok)) s) = Inl (HTTPException 401 d)) \<and>
      (st_token tok \<noteq> [] \<longrightarrow>
         require_auth now (Some (st_token tok)) s
           = (Inl (HTTPException 401 ''Invalid or expired token''), delete_session_token tok s)) \<and>
      (\<exists>d. require_auth now' (Some (st_token tok)) (delete_session_token tok s)
              = (Inl (HTTPException 401 d), delete_session_token tok s))) \<and>
   (tv \<notin> set (map st_token (session_tokens s)) \<longrightarrow>
      get_user_by_token now s tv = (None, s) \<and>
      (\<exists>d. require_auth now (Some tv) s = (Inl (HTTPException 401 d), s))) \<and>
   (distinct (map st_token (session_tokens s)) \<and> tok \<in> set (session_tokens s) \<and>
    \<not> st_expires_at tok < now \<and>
    (\<forall>u \<in> set (users s). u_id u = st_user_id tok \<longrightarrow> \<not> u_is_active u) \<longrightarrow>
      get_user_by_token now s (st_token tok) = (None, s) \<and>
      (\<exists>d. require_auth now (Some (st_token tok)) s = (Inl (HTTPException 401 d), s)))"
proof (intro conjI impI)
  assume h: "distinct (map st_token (session_tokens s)) \<and> tok \<in> set (session_tokens s) \<and>
    st_expires_at tok < now"
  let ?s' = "delete_session_token tok s"
  from h have f: "first (\<lambda>t. st_token t = st_token tok) (session_tokens s) = Some tok"
    by (simp add: first_distinct_key)
  with h show g1: "get_user_by_token now s (st_token tok) = (None, ?s')"
    by (simp add: get_user_by_token_def)
  show "tok \<notin> set (session_tokens ?s')"
    by (simp add: delete_session_token_def)
  from h show gone: "st_token tok \<notin> set (map st_token (session_tokens ?s'))"
    using token_gone_after_delete[of s tok] by blast
  then have n: "first (\<lambda>t. st_token t = st_token tok) (session_tokens ?s') = None"
    unfolding first_None_iff by (metis image_eqI set_map)
  then show g2: "get_user_by_token now' ?s' (st_token tok) = (None, ?s')"
    by (simp add: get_user_by_token_def)
  from g1 show "\<exists>d. fst (require_auth now (Some (st_token tok)) s) = Inl (HTTPException 401 d)"
    by (simp add: require_auth_def)
  from g2 show "\<exists>d. require_auth now' (Some (st_token tok)) ?s' = (Inl (HTTPException 401 d), ?s')"
    by (simp add: require_auth_def)
  { assume "st_token tok \<noteq> []"
    with g1 show "require_auth now (Some (st_token tok)) s
           = (Inl (HTTPException 401 ''Invalid or expired token''), ?s')"
      by (simp add: require_auth_def) }
next
  assume "tv \<notin> set (map st_token (session_tokens s))"
  then have "first (\<lambda>t. st_token t = tv) (session_tokens s) = None"
    by (auto simp: first_None_iff)
  then show g: "get_user_by_token now s tv = (None, s)"
    by (simp add: get_user_by_token_def)
  then show "\<exists>d. require_auth now (Some tv) s = (Inl (HTTPException 401 d), s)"
    by (simp add: require_auth_def)
next
  assume h: "distinct (map st_token (session_tokens s)) \<and> tok \<in> set (session_tokens s) \<and>
    \<not> st_expires_at tok < now \<and>
    (\<forall>u \<in> set (users s). u_id u = st_user_id tok \<longrightarrow> \<not> u_is_active u)"
  then have f: "first (\<lambda>t. st_token t = st_token tok) (session_tokens s) = Some tok"
    by (simp add: first_distinct_key)
  from h have "first (\<lambda>u. u_id u = st_user_id tok \<and> u_is_active u) (users s) = None"
    by (auto simp: first_None_iff)
  with f h show g: "get_user_by_token now s (st_token tok) = (None, s)"
    by (simp add: get_user_by_token_def)
  then show "\<exists>d. require_auth now (Some (st_token tok)) s = (Inl (HTTPException 401 d), s)"
    by (simp add: require_auth_def)
qed

theorem expired_token_is_deleted_and_rejected_witness:
  "get_user_by_token 1000 sample_db ''tokOld'' = (None, delete_session_token token_old sample_db) \<and>
   token_old \<notin> set (session_tokens (delete_session_token token_old sample_db)) \<and>
   require_auth 1000 (Some ''tokOld'') sample_db
     = (Inl (HTTPException 401 ''Invalid or expired token''), delete_session_token token_old sample_db) \<and>
   get_user_by_token 2000 (delete_session_token token_old sample_db) ''tokOld''
     = (None, delete_session_token token_old sample_db) \<and>
   get_user_by_token 1000 sample_db ''nope'' = (None, sample_db) \<and>
   get_user_by_token 1000 sample_db ''tokR'' = (None, sample_db)"
proof -
  have h1: "distinct (map st_token (session_tokens sample_db)) \<and>
            token_old \<in> set (session_tokens sample_db) \<and> st_expires_at token_old < 1000"
    by (simp add: sample_defs)
  have h2: "''nope'' \<notin> set (map st_token (session_tokens sample_db))"
    by (simp add: sample_defs)
  have h3: "distinct (map st_token (session_tokens sample_db)) \<and>
            token_R \<in> set (session_tokens sample_db) \<and> \<not> st_expires_at token_R < 1000 \<and>
            (\<forall>u \<in> set (users sample_db). u_id u = st_user_id token_R \<longrightarrow> \<not> u_is_active u)"
    by (simp add: sample_defs)
  have e: "st_token token_old = ''tokOld''" "st_token token_R = ''tokR''"
    by (simp_all add: sample_defs)
  have A: "get_user_by_token 1000 sample_db (st_token token_old)
             = (None, delete_session_token token_old sample_db) \<and>
           token_old \<notin> set (session_tokens (delete_session_token token_old sample_db)) \<and>
           get_user_by_token 2000 (delete_session_token token_old sample_db) (st_token token_old)
             = (None, delete_session_token token_old sample_db) \<and>
           (st_token token_old \<noteq> [] \<longrightarrow>
              require_auth 1000 (Some (st_token token_old)) sample_db
                = (Inl (HTTPException 401 ''Invalid or expired token''),
                   delete_session_token token_old sample_db)) \<and>
           get_user_by_token 1000 sample_db ''nope'' = (None, sample_db)"
    using expired_token_is_deleted_and_rejected
            [of sample_db token_old 1000 2000 "''nope''"] h1 h2 by blast
  have B: "get_user_by_token 1000 sample_db (st_token token_R) = (None, sample_db)"
    using expired_token_is_deleted_and_rejected
            [of sample_db token_R 1000 2000 "''nope''"] h3 by blast
  from A B show ?thesis
    by (simp add: e)
qed

text \<open>
  Claim C8. The expiry test is \<^verbatim>\<open>tok.expires_at < now\<close>: a stored token is deleted and
  rejected when its expiry instant is strictly before the clock; otherwise the state is
  unchanged and the result is the active account with the token's \<^verbatim>\<open>user_id\<close>. In
  particular a token presented at the very instant of its expiry resolves to its active
  account.
\<close>

theorem token_expiry_is_strict:
  "distinct (map st_token (session_tokens s)) \<and> tok \<in> set (session_tokens s) \<longrightarrow>
     (st_expires_at tok < now \<longrightarrow>
        get_user_by_token now s (st_token tok) = (None, delete_session_token tok s) \<and>
        tok \<notin> set (session_tokens (delete_session_token tok s))) \<and>
     (now \<le> st_expires_at tok \<longrightarrow>
        get_user_by_token now s (st_token tok)
          = (first (\<lambda>u. u_id u = st_user_id tok \<and> u_is_active u) (users s), s)) \<and>
     (st_expires_at tok = now \<and> distinct (map u_id (users s)) \<and> u \<in> set (users s) \<and>
      u_id u = st_user_id tok \<and> u_is_active u \<longrightarrow>
        get_user_by_token now s (st_token tok) = (Some u, s) \<and>
        (st_token tok \<noteq> [] \<longrightarrow> require_auth now (Some (st_token tok)) s = (Inr u, s)))"
proof (intro impI)
  assume h: "distinct (map st_token (session_tokens s)) \<and> tok \<in> set (session_tokens s)"
  then have f: "first (\<lambda>t. st_token t = st_token tok) (session_tokens s) = Some tok"
    by (simp add: first_distinct_key)
  have a: "st_expires_at tok < now \<longrightarrow>
        get_user_by_token now s (st_token tok) = (None, delete_session_token tok s) \<and>
        tok \<notin> set (session_tokens (delete_session_token tok s))"
    using f by (simp add: get_user_by_token_def delete_session_token_def)
  have b: "now \<le> st_expires_at tok \<longrightarrow>
        get_user_by_token now s (st_token tok)
          = (first (\<lambda>u. u_id u = st_user_id tok \<and> u_is_active u) (users s), s)"
    using f by (simp add: get_user_by_token_def)
  have c: "get_user_by_token now s (st_token tok) = (Some u, s) \<and>
        (st_token tok \<noteq> [] \<longrightarrow> require_auth now (Some (st_token tok)) s = (Inr u, s))"
    if u: "st_expires_at tok = now \<and> distinct (map u_id (users s)) \<and> u \<in> set (users s) \<and>
      u_id u = st_user_id tok \<and> u_is_active u"
  proof -
    from u have k: "st_user_id tok = u_id u"
      by simp
    from u have "first (\<lambda>t. u_id t = st_user_id tok \<and> u_is_active t) (users s) = Some u"
      unfolding k by (simp add: first_distinct_key_pred)
    with f u have g: "get_user_by_token now s (st_token tok) = (Some u, s)"
      by (simp add: get_user_by_token_def)
    then show ?thesis by (simp add: require_auth_def)
  qed
  from a b c show "(st_expires_at tok < now \<longrightarrow>
        get_user_by_token now s (st_token tok) = (None, delete_session_token tok s) \<and>
        tok \<notin> set (session_tokens (delete_session_token tok s))) \<and>
     (now \<le> st_expires_at tok \<longrightarrow>
        get_user_by_token now s (st_token tok)
          = (first (\<lambda>u. u_id u = st_user_id tok \<and> u_is_active u) (users s), s)) \<and>
     (st_expires_at tok = now \<and> distinct (map u_id (users s)) \<and> u \<in> set (users s) \<and>
      u_id u = st_user_id tok \<and> u_is_active u \<longrightarrow>
        get_user_by_token now s (st_token tok) = (Some u, s) \<and>
        (st_token tok \<noteq> [] \<longrightarrow> require_auth now (Some (st_token tok)) s = (Inr u, s)))"
    by blast
qed

theorem token_expiry_is_strict_witness:
  "get_user_by_token 1000 sample_db ''tokQ'' = (Some user_Q, sample_db) \<and>
   require_auth 1000 (Some ''tokQ'') sample_db = (Inr user_Q, sample_db) \<and>
   get_user_by_token 1000 sample_db ''tokOld'' = (None, delete_session_token token_old sample_db) \<and>
   token_old \<notin> set (session_tokens (delete_session_token token_old sample_db))"
proof -
  have h: "distinct (map st_token (session_tokens sample_db)) \<and> token_Q \<in> set (session_tokens sample_db)"
    by (simp add: sample_defs)
  have h2: "distinct (map st_token (session_tokens sample_db)) \<and> token_old \<in> set (session_tokens sample_db)"
    by (simp add: sample_defs)
  have u: "st_expires_at token_Q = 1000 \<and> distinct (map u_id (users sample_db)) \<and>
     user_Q \<in> set (users sample_db) \<and> u_id user_Q = st_user_id token_Q \<and> u_is_active user_Q"
    by (simp add: sample_defs)
  have e: "st_expires_at token_old < 1000" "st_token token_Q = ''tokQ''" "st_token token_old = ''tokOld''"
    by (simp_all add: sample_defs)
  have A: "get_user_by_token 1000 sample_db (st_token token_Q) = (Some user_Q, sample_db) \<and>
        (st_token token_Q \<noteq> [] \<longrightarrow>
           require_auth 1000 (Some (st_token token_Q)) sample_db = (Inr user_Q, sample_db))"
    using token_expiry_is_strict[of sample_db token_Q 1000 user_Q] h u by blast
  have B: "get_user_by_token 1000 sample_db (st_token token_old)
             = (None, delete_session_token token_old sample_db) \<and>
           token_old \<notin> set (session_tokens (delete_session_token token_old sample_db))"
    using token_expiry_is_strict[of sample_db token_old 1000 user_Q] h2 e(1) by blast
  from A B show ?thesis
    by (simp add: e)
qed

section \<open>Role check\<close>

text \<open>
  Claim C3. \<^verbatim>\<open>require_role(role)\<close> returns the account exactly when the account's role
  string equals \<open>role\<close>, and raises 403 otherwise. There is no hierarchy: a request whose
  credentials resolve to an account with role \<^verbatim>\<open>admin\<close> gets 403 from every route that
  requires the role \<^verbatim>\<open>parent\<close>, the schedule view among them.
\<close>

theorem require_role_exact_match:
  "((\<exists>v. require_role role u = Inr v) \<longleftrightarrow> u_role u = role) \<and>
   (u_role u = role \<longrightarrow> require_role role u = Inr u) \<and>
   (u_role u \<noteq> role \<longrightarrow>
      require_role role u = Inl (HTTPException 403 (''Requires role '' @ [CHR 0x27] @ role @ [CHR 0x27]))) \<and>
   (require_auth now cred s = (Inr a, s') \<and> u_role a = ''admin'' \<and>
    required_role req = Some ''parent'' \<longrightarrow>
      app cfg now rnd cred req s
        = (Inl (HTTPException 403 (''Requires role '' @ [CHR 0x27] @ ''parent'' @ [CHR 0x27])), s')) \<and>
   (require_auth now cred s = (Inr a, s') \<and> u_role a = ''admin'' \<longrightarrow>
      app cfg now rnd cred (ParentViewSchedule camper_id camp_year) s
        = (Inl (HTTPException 403 (''Requires role '' @ [CHR 0x27] @ ''parent'' @ [CHR 0x27])), s'))"
proof (intro conjI impI)
  show "(\<exists>v. require_role role u = Inr v) \<longleftrightarrow> u_role u = role"
    by (simp add: require_role_def)
  show "u_role u = role \<Longrightarrow> require_role role u = Inr u"
    by (simp add: require_role_def)
  show "u_role u \<noteq> role \<Longrightarrow>
      require_role role u = Inl (HTTPException 403 (''Requires role '' @ [CHR 0x27] @ role @ [CHR 0x27]))"
    by (simp add: require_role_def)
  have w: "with_role ''parent'' now cred s h
        = (Inl (HTTPException 403 (''Requires role '' @ [CHR 0x27] @ ''parent'' @ [CHR 0x27])), s')"
    if "require_auth now cred s = (Inr a, s') \<and> u_role a = ''admin''"
    for h :: "user \<Rightarrow> db \<Rightarrow> (error + 'a) \<times> db"
    using that by (simp add: with_role_def with_auth_def require_role_def)
  show "app cfg now rnd cred req s
        = (Inl (HTTPException 403 (''Requires role '' @ [CHR 0x27] @ ''parent'' @ [CHR 0x27])), s')"
    if "require_auth now cred s = (Inr a, s') \<and> u_role a = ''admin'' \<and>
        required_role req = Some ''parent''"
    using that by (cases req) (simp_all add: w respond_def)
  show "app cfg now rnd cred (ParentViewSchedule camper_id camp_year) s
        = (Inl (HTTPException 403 (''Requires role '' @ [CHR 0x27] @ ''parent'' @ [CHR 0x27])), s')"
    if "require_auth now cred s = (Inr a, s') \<and> u_role a = ''admin''"
    using that by (simp add: w respond_def)
qed

theorem require_role_exact_match_witness:
  "require_auth 1000 (Some ''tokAdmin'') sample_db = (Inr user_admin, sample_db) \<and>
   u_role user_admin = ''admin'' \<and>
   required_role (ParentEnroll \<lparr>ec_camper_id = 1, ec_camp_year = 2026\<rparr>) = Some ''parent'' \<and>
   u_role user_admin \<noteq> ''parent'' \<and>
   u_role user_P = ''parent'' \<and>
   require_role ''parent'' user_P = Inr user_P \<and>
   require_role ''parent'' user_admin
     = Inl (HTTPException 403 (''Requires role '' @ [CHR 0x27] @ ''parent'' @ [CHR 0x27])) \<and>
   app sample_env 1000 ''rnd'' (Some ''tokAdmin'') (ParentEnroll \<lparr>ec_camper_id = 1, ec_camp_year = 2026\<rparr>) sample_db
     = (Inl (HTTPException 403 (''Requires role '' @ [CHR 0x27] @ ''parent'' @ [CHR 0x27])), sample_db) \<and>
   app sample_env 1000 ''rnd'' (Some ''tokAdmin'') (ParentViewSchedule None None) sample_db
     = (Inl (HTTPException 403 (''Requires role '' @ [CHR 0x27] @ ''parent'' @ [CHR 0x27])), sample_db)"
proof -
  have a: "require_auth 1000 (Some ''tokAdmin'') sample_db = (Inr user_admin, sample_db)"
    by (simp add: require_auth_def get_user_by_token_def first_def sample_defs)
  have b: "u_role user_admin = ''admin''" "u_role user_admin \<noteq> ''parent''" "u_role user_P = ''parent''"
    "required_role (ParentEnroll \<lparr>ec_camper_id = 1, ec_camp_year = 2026\<rparr>) = Some ''parent''"
    by (simp_all add: sample_defs)
  from a b
    require_role_exact_match[of "''parent''" user_P 1000 "Some ''tokAdmin''" sample_db user_admin sample_db
      "ParentEnroll \<lparr>ec_camper_id = 1, ec_camp_year = 2026\<rparr>" sample_env "''rnd''" None None]
    require_role_exact_match[of "''parent''" user_admin 1000 "Some ''tokAdmin''" sample_db user_admin sample_db
      "ParentEnroll \<lparr>ec_camper_id = 1, ec_camp_year = 2026\<rparr>" sample_env "''rnd''" None None]
  show ?thesis by simp
qed

section \<open>Fresh primary keys\<close>

lemma fold_max_ge: "a \<le> fold max ids (a::int)"
  by (induction ids arbitrary: a) (auto intro: order_trans[OF max.cobounded2])

lemma fold_max_bound: "x \<in> set ids \<Longrightarrow> x \<le> fold max ids (a::int)"
proof (induction ids arbitrary: a)
  case Nil
  then show ?case by simp
next
  case (Cons y ys)
  show ?case
  proof (cases "x = y")
    case True
    have "y \<le> max y a" by simp
    also have "\<dots> \<le> fold max ys (max y a)" by (rule fold_max_ge)
    finally show ?thesis using True by simp
  next
    case False
    with Cons show ?thesis by simp
  qed
qed

lemma next_id_fresh: "next_id ids \<notin> set ids"
proof
  assume "next_id ids \<in> set ids"
  then have "next_id ids \<le> fold max ids 0" by (rule fold_max_bound)
  then show False by (simp add: next_id_def)
qed

lemma first_key_None: "k \<notin> set (map f xs) \<Longrightarrow> first (\<lambda>t. f t = k) xs = None"
  by (auto simp: first_None_iff)

lemma first_key_Some: "k \<in> set (map f xs) \<Longrightarrow> \<exists>x. first (\<lambda>t. f t = k) xs = Some x"
  using first_key_cases[of k f xs] by auto

section \<open>Values that fit their columns\<close>

lemma varchar_keeps_iff: "varchar n v = Some v \<longleftrightarrow> CHR 0x00 \<notin> set v \<and> length v \<le> n"
proof -
  have "take n v \<noteq> v" if "\<not> length v \<le> n"
    using that by (metis length_take min.cobounded2)
  then show ?thesis
    by (auto simp: varchar_def)
qed

lemma nullable_keeps_None: "nullable col None = Some None"
  by (simp add: nullable_def)

lemma nullable_keeps_Some: "col x = Some x \<Longrightarrow> nullable col (Some x) = Some (Some x)"
  by (simp add: nullable_def)

lemma datetime_le_Aware: "datetime_le (Aware a) (Aware b) = Inr (a \<le> b)"
  by (simp add: datetime_le_def)

section \<open>Creating events, enrollments, groups and children\<close>

text \<open>
  Claim C7, as the code has it. \<^verbatim>\<open>admin_create_event\<close>: when no group has the requested
  \<^verbatim>\<open>group_id\<close> the call raises 404; when the group exists and \<^verbatim>\<open>end_time <= start_time\<close> it
  raises 400; when the group exists, \<^verbatim>\<open>end_time <= start_time\<close> is false, and the title,
  the description and the location are values of their columns (at most 255 characters
  for title and location, no NUL character), it returns the new event, and the state is the
  old one with that one event row added, whose columns are the fields of the request, the
  two datetimes as the instants the storage reads them as (an aware datetime is its
  instant), and whose primary key is new. Every call that fails leaves the state as it was.
\<close>

theorem admin_create_event_outcomes:
  "(gec_group_id payload \<notin> set (map g_id (groups s)) \<longrightarrow>
      admin_create_event cfg payload s = (Inl (HTTPException 404 ''Group not found''), s)) \<and>
   (gec_group_id payload \<in> set (map g_id (groups s)) \<and>
    datetime_le (gec_end_time payload) (gec_start_time payload) = Inr True \<longrightarrow>
      admin_create_event cfg payload s
        = (Inl (HTTPException 400 ''end_time must be after start_time''), s)) \<and>
   (gec_group_id payload \<in> set (map g_id (groups s)) \<and>
    datetime_le (gec_end_time payload) (gec_start_time payload) = Inr False \<and>
    varchar 255 (gec_title payload) = Some (gec_title payload) \<and>
    nullable text_col (gec_description payload) = Some (gec_description payload) \<and>
    nullable (varchar 255) (gec_location payload) = Some (gec_location payload) \<longrightarrow>
      (let ev = \<lparr>ev_id = next_id (map ev_id (group_events s)),
                  ev_group_id = gec_group_id payload, ev_title = gec_title payload,
                  ev_description = gec_description payload, ev_location = gec_location payload,
                  ev_start_time = timestamptz cfg (gec_start_time payload),
                  ev_end_time = timestamptz cfg (gec_end_time payload)\<rparr>
       in admin_create_event cfg payload s = (Inr ev, s\<lparr>group_events := group_events s @ [ev]\<rparr>) \<and>
          ev_id ev \<notin> set (map ev_id (group_events s)))) \<and>
   (\<forall>e s'. admin_create_event cfg payload s = (Inl e, s') \<longrightarrow> s' = s) \<and>
   timestamptz cfg (Aware i) = i"
proof (intro conjI impI allI)
  assume "gec_group_id payload \<notin> set (map g_id (groups s))"
  then have "first (\<lambda>g. g_id g = gec_group_id payload) (groups s) = None"
    by (rule first_key_None)
  then show "admin_create_event cfg payload s = (Inl (HTTPException 404 ''Group not found''), s)"
    by (simp add: admin_create_event_def)
next
  assume h: "gec_group_id payload \<in> set (map g_id (groups s)) \<and>
    datetime_le (gec_end_time payload) (gec_start_time payload) = Inr True"
  then obtain g where "first (\<lambda>g. g_id g = gec_group_id payload) (groups s) = Some g"
    using first_key_Some[of "gec_group_id payload" g_id "groups s"] by blast
  with h show "admin_create_event cfg payload s
        = (Inl (HTTPException 400 ''end_time must be after start_time''), s)"
    by (simp add: admin_create_event_def)
next
  assume h: "gec_group_id payload \<in> set (map g_id (groups s)) \<and>
    datetime_le (gec_end_time payload) (gec_start_time payload) = Inr False \<and>
    varchar 255 (gec_title payload) = Some (gec_title payload) \<and>
    nullable text_col (gec_description payload) = Some (gec_description payload) \<and>
    nullable (varchar 255) (gec_location payload) = Some (gec_location payload)"
  then obtain g where "first (\<lambda>g. g_id g = gec_group_id payload) (groups s) = Some g"
    using first_key_Some[of "gec_group_id payload" g_id "groups s"] by blast
  with h show "let ev = \<lparr>ev_id = next_id (map ev_id (group_events s)),
                  ev_group_id = gec_group_id payload, ev_title = gec_title payload,
                  ev_description = gec_description payload, ev_location = gec_location payload,
                  ev_start_time = timestamptz cfg (gec_start_time payload),
                  ev_end_time = timestamptz cfg (gec_end_time payload)\<rparr>
       in admin_create_event cfg payload s = (Inr ev, s\<lparr>group_events := group_events s @ [ev]\<rparr>) \<and>
          ev_id ev \<notin> set (map ev_id (group_events s))"
    using next_id_fresh[of "map ev_id (group_events s)"]
    by (simp add: admin_create_event_def insert_group_event_def Let_def)
next
  fix e s' assume r: "admin_create_event cfg payload s = (Inl e, s')"
  show "s' = s"
  proof (cases "first (\<lambda>g. g_id g = gec_group_id payload) (groups s)")
    case None
    with r show ?thesis by (simp add: admin_create_event_def)
  next
    case (Some g)
    show ?thesis
    proof (cases "datetime_le (gec_end_time payload) (gec_start_time payload)")
      case (Inl x)
      with Some r show ?thesis by (simp add: admin_create_event_def)
    next
      case (Inr b)
      show ?thesis
      proof (cases b)
        case True
        with Some Inr r show ?thesis by (simp add: admin_create_event_def)
      next
        case False
        with Some Inr r show ?thesis
          by (cases "insert_group_event (gec_group_id payload) (gec_title payload)
               (gec_description payload) (gec_location payload)
               (timestamptz cfg (gec_start_time payload))
               (timestamptz cfg (gec_end_time payload)) s")
             (auto simp: admin_create_event_def)
      qed
    qed
  qed
next
  show "timestamptz cfg (Aware i) = i"
    by (simp add: timestamptz_def)
qed

theorem admin_create_event_outcomes_witness:
  "admin_create_event sample_env (event_new\<lparr>gec_group_id := 9\<rparr>) sample_db
     = (Inl (HTTPException 404 ''Group not found''), sample_db) \<and>
   admin_create_event sample_env (event_new\<lparr>gec_end_time := Aware 2000\<rparr>) sample_db
     = (Inl (HTTPException 400 ''end_time must be after start_time''), sample_db) \<and>
   admin_create_event sample_env event_new sample_db
     = (Inr \<lparr>ev_id = 3, ev_group_id = 2, ev_title = ''Art'', ev_description = None,
              ev_location = Some ''Hall'', ev_start_time = 2000, ev_end_time = 2100\<rparr>,
        sample_db\<lparr>group_events :=
          [event_E2, event_E1,
           \<lparr>ev_id = 3, ev_group_id = 2, ev_title = ''Art'', ev_description = None,
              ev_location = Some ''Hall'', ev_start_time = 2000, ev_end_time = 2100\<rparr>]\<rparr>)"
proof -
  have h1: "gec_group_id (event_new\<lparr>gec_group_id := 9\<rparr>) \<notin> set (map g_id (groups sample_db))"
    by (simp add: sample_defs)
  have h2: "gec_group_id (event_new\<lparr>gec_end_time := Aware 2000\<rparr>) \<in> set (map g_id (groups sample_db)) \<and>
            datetime_le (gec_end_time (event_new\<lparr>gec_end_time := Aware 2000\<rparr>))
              (gec_start_time (event_new\<lparr>gec_end_time := Aware 2000\<rparr>)) = Inr True"
    by (simp add: sample_defs datetime_le_def)
  have h3: "gec_group_id event_new \<in> set (map g_id (groups sample_db)) \<and>
            datetime_le (gec_end_time event_new) (gec_start_time event_new) = Inr False \<and>
            varchar 255 (gec_title event_new) = Some (gec_title event_new) \<and>
            nullable text_col (gec_description event_new) = Some (gec_description event_new) \<and>
            nullable (varchar 255) (gec_location event_new) = Some (gec_location event_new)"
    by (simp add: sample_defs datetime_le_def varchar_def nullable_def text_col_def)
  have A: "admin_create_event sample_env (event_new\<lparr>gec_group_id := 9\<rparr>) sample_db
     = (Inl (HTTPException 404 ''Group not found''), sample_db)"
    using admin_create_event_outcomes[of "event_new\<lparr>gec_group_id := 9\<rparr>" sample_db sample_env] h1
    by blast
  have B: "admin_create_event sample_env (event_new\<lparr>gec_end_time := Aware 2000\<rparr>) sample_db
     = (Inl (HTTPException 400 ''end_time must be after start_time''), sample_db)"
    using admin_create_event_outcomes[of "event_new\<lparr>gec_end_time := Aware 2000\<rparr>" sample_db sample_env] h2
    by blast
  have C: "let ev = \<lparr>ev_id = next_id (map ev_id (group_events sample_db)),
                  ev_group_id = gec_group_id event_new, ev_title = gec_title event_new,
                  ev_description = gec_description event_new, ev_location = gec_location event_new,
                  ev_start_time = timestamptz sample_env (gec_start_time event_new),
                  ev_end_time = timestamptz sample_env (gec_end_time event_new)\<rparr>
       in admin_create_event sample_env event_new sample_db
            = (Inr ev, sample_db\<lparr>group_events := group_events sample_db @ [ev]\<rparr>) \<and>
          ev_id ev \<notin> set (map ev_id (group_events sample_db))"
    using admin_create_event_outcomes[of event_new sample_db sample_env] h3 by blast
  have n: "next_id [ev_id event_E2, ev_id event_E1] = 3"
    by (simp add: next_id_def sample_defs)
  have f: "gec_group_id event_new = 2" "gec_title event_new = ''Art''"
    "gec_description event_new = None" "gec_location event_new = Some ''Hall''"
    "timestamptz sample_env (gec_start_time event_new) = 2000"
    "timestamptz sample_env (gec_end_time event_new) = 2100"
    "group_events sample_db = [event_E2, event_E1]"
    by (simp_all add: event_new_def sample_db_def timestamptz_def)
  from C have "admin_create_event sample_env event_new sample_db
     = (Inr \<lparr>ev_id = 3, ev_group_id = 2, ev_title = ''Art'', ev_description = None,
              ev_location = Some ''Hall'', ev_start_time = 2000, ev_end_time = 2100\<rparr>,
        sample_db\<lparr>group_events :=
          [event_E2, event_E1,
           \<lparr>ev_id = 3, ev_group_id = 2, ev_title = ''Art'', ev_description = None,
              ev_location = Some ''Hall'', ev_start_time = 2000, ev_end_time = 2100\<rparr>]\<rparr>)"
    by (simp add: Let_def n f)
  with A B show ?thesis by blast
qed

text \<open>
  Claim C7, as stated, fails: for an existing group and \<^verbatim>\<open>end_time > start_time\<close>, a title of
  256 letters is refused by its \<^verbatim>\<open>String(255)\<close> column, so no row is persisted; and for a
  naive \<^verbatim>\<open>start_time\<close> with an aware \<^verbatim>\<open>end_time\<close> the comparison itself raises, which is
  neither of the two failures of the claim nor a persisted row.
\<close>

theorem admin_create_event_long_title_counterexample:
  "gec_group_id (event_new\<lparr>gec_title := replicate 256 CHR ''a''\<rparr>) \<in> set (map g_id (groups sample_db)) \<and>
   datetime_le (gec_end_time (event_new\<lparr>gec_title := replicate 256 CHR ''a''\<rparr>))
     (gec_start_time (event_new\<lparr>gec_title := replicate 256 CHR ''a''\<rparr>)) = Inr False \<and>
   admin_create_event sample_env (event_new\<lparr>gec_title := replicate 256 CHR ''a''\<rparr>) sample_db
     = (Inl (DataError ''group_events.title''), sample_db) \<and>
   admin_create_event sample_env (event_new\<lparr>gec_start_time := Naive 2000\<rparr>) sample_db
     = (Inl (TypeError (''can'' @ [CHR 0x27] @ ''t compare offset-naive and offset-aware datetimes'')),
        sample_db)"
  by (simp add: admin_create_event_def insert_group_event_def first_def datetime_le_def
        varchar_def sample_defs)

text \<open>
  Claim C9. An enrollment that \<^verbatim>\<open>parent_enroll\<close> returns has status \<^verbatim>\<open>pending\<close> and no
  notes, whatever the request holds; it is the one row added to the enrollments, for the
  camper of the request and a camp year with the requested year number. The request has
  the two fields \<^verbatim>\<open>camper_id\<close> and \<^verbatim>\<open>camp_year\<close> only.
\<close>

theorem parent_enroll_initial_fields:
  "parent_enroll payload u s = (Inr enr, s') \<longrightarrow>
     e_status enr = ''pending'' \<and> e_notes enr = None \<and>
     e_camper_id enr = ec_camper_id payload \<and>
     enrollments s' = enrollments s @ [enr] \<and>
     (\<exists>cy \<in> set (camp_years s'). cy_id cy = e_camp_year_id enr \<and> cy_year cy = ec_camp_year payload)"
proof
  assume r: "parent_enroll payload u s = (Inr enr, s')"
  obtain rc s1 where g: "get_or_create_camp_year s (ec_camp_year payload) = (rc, s1)"
    by (cases "get_or_create_camp_year s (ec_camp_year payload)")
  from r g obtain cy where rc: "rc = Inr cy"
    by (cases rc) (auto simp: parent_enroll_def split: sum.splits)
  have s1: "enrollments s1 = enrollments s \<and> cy \<in> set (camp_years s1) \<and>
            cy_year cy = ec_camp_year payload"
    using g rc
    by (auto simp: get_or_create_camp_year_def insert_camp_year_def Let_def
             split: option.splits sum.splits if_splits dest: first_Some_holds)
  from r g rc have i: "insert_enrollment (cy_id cy) (ec_camper_id payload) ''pending'' None s1
                         = Inr (enr, s')"
    by (auto simp: parent_enroll_def split: sum.splits option.splits)
  then have "e_status enr = ''pending'' \<and> e_notes enr = None \<and>
     e_camper_id enr = ec_camper_id payload \<and> e_camp_year_id enr = cy_id cy \<and>
     enrollments s' = enrollments s1 @ [enr] \<and> camp_years s' = camp_years s1"
    by (auto simp: insert_enrollment_def varchar_def nullable_def Let_def
             split: if_splits option.splits)
  with s1 show "e_status enr = ''pending'' \<and> e_notes enr = None \<and>
     e_camper_id enr = ec_camper_id payload \<and>
     enrollments s' = enrollments s @ [enr] \<and>
     (\<exists>cy \<in> set (camp_years s'). cy_id cy = e_camp_year_id enr \<and> cy_year cy = ec_camp_year payload)"
    by auto
qed

theorem parent_enroll_initial_fields_witness:
  "fst (parent_enroll enroll_B user_P sample_db)
     = Inr \<lparr>e_id = 2, e_camp_year_id = 2, e_camper_id = 2, e_status = ''pending'', e_notes = None\<rparr> \<and>
   enrollments (snd (parent_enroll enroll_B user_P sample_db))
     = enrollments sample_db @
         [\<lparr>e_id = 2, e_camp_year_id = 2, e_camper_id = 2, e_status = ''pending'', e_notes = None\<rparr>]"
proof -
  let ?enr = "\<lparr>e_id = 2, e_camp_year_id = 2, e_camper_id = 2, e_status = ''pending'', e_notes = None\<rparr>"
  have F: "fst (parent_enroll enroll_B user_P sample_db) = Inr ?enr"
    by (simp add: parent_enroll_def ensure_parent_owns_camper_def get_or_create_camp_year_def
          insert_camp_year_def insert_enrollment_def first_def next_id_def Let_def int4_def
          varchar_def nullable_def sample_defs)
  then have r: "parent_enroll enroll_B user_P sample_db
                  = (Inr ?enr, snd (parent_enroll enroll_B user_P sample_db))"
    by (simp add: prod_eq_iff)
  from parent_enroll_initial_fields
         [of enroll_B user_P sample_db ?enr "snd (parent_enroll enroll_B user_P sample_db)"] r
  have "enrollments (snd (parent_enroll enroll_B user_P sample_db)) = enrollments sample_db @ [?enr]"
    by blast
  with F show ?thesis by blast
qed

text \<open>
  Claim C6. \<^verbatim>\<open>admin_create_group\<close> does not look for an existing group before it inserts:
  when the camp year already has a group of the requested name, the constraint
  \<^verbatim>\<open>uq_group_year_name\<close> rejects the row at commit, no row is added, and what the caller
  gets is the storage layer's \<open>IntegrityError\<close>, not an \<open>HTTPException\<close> as from the
  handlers that check first (\<^verbatim>\<open>register_parent\<close>, \<^verbatim>\<open>parent_enroll\<close>,
  \<^verbatim>\<open>admin_add_group_member\<close>).
\<close>

text \<open>
  Claim C6. \<^verbatim>\<open>admin_create_group\<close> does not look for an existing group before it inserts:
  when the camp year already has a group of the requested name, the constraint
  \<^verbatim>\<open>uq_group_year_name\<close> rejects the row at commit, no row is added, and what the caller
  gets is the storage layer's \<open>IntegrityError\<close>, not an \<open>HTTPException\<close> as from the
  handlers that check first (\<^verbatim>\<open>register_parent\<close>, \<^verbatim>\<open>parent_enroll\<close>,
  \<^verbatim>\<open>admin_add_group_member\<close>).
\<close>

theorem admin_create_group_duplicate_name:
  "distinct (map cy_year (camp_years s)) \<and> cy \<in> set (camp_years s) \<and>
   g \<in> set (groups s) \<and> g_camp_year_id g = cy_id cy \<longrightarrow>
     admin_create_group \<lparr>gc_camp_year = cy_year cy, gc_name = g_name g, gc_description = d\<rparr> s
       = (Inl (IntegrityError ''uq_group_year_name''), s)"
proof
  assume h: "distinct (map cy_year (camp_years s)) \<and> cy \<in> set (camp_years s) \<and>
   g \<in> set (groups s) \<and> g_camp_year_id g = cy_id cy"
  then have "first (\<lambda>y. cy_year y = cy_year cy) (camp_years s) = Some cy"
    by (simp add: first_distinct_key)
  then have c: "get_or_create_camp_year s (cy_year cy) = (Inr cy, s)"
    by (simp add: get_or_create_camp_year_def)
  from h have "(cy_id cy, g_name g) \<in> set (map (\<lambda>r. (g_camp_year_id r, g_name r)) (groups s))"
    by force
  then have "insert_group (cy_id cy) (g_name g) d s = Inl (IntegrityError ''uq_group_year_name'')"
    by (simp add: insert_group_def)
  with c show "admin_create_group \<lparr>gc_camp_year = cy_year cy, gc_name = g_name g, gc_description = d\<rparr> s
       = (Inl (IntegrityError ''uq_group_year_name''), s)"
    by (simp add: admin_create_group_def)
qed

theorem admin_create_group_duplicate_name_witness:
  "admin_create_group \<lparr>gc_camp_year = 2026, gc_name = ''Red'', gc_description = None\<rparr> sample_db
     = (Inl (IntegrityError ''uq_group_year_name''), sample_db)"
proof -
  let ?cy = "\<lparr>cy_id = 1, cy_year = 2026, cy_is_active = True\<rparr>"
  have h: "distinct (map cy_year (camp_years sample_db)) \<and> ?cy \<in> set (camp_years sample_db) \<and>
           group_G1 \<in> set (groups sample_db) \<and> g_camp_year_id group_G1 = cy_id ?cy"
    by (simp add: sample_defs)
  have "admin_create_group \<lparr>gc_camp_year = cy_year ?cy, gc_name = g_name group_G1,
                            gc_description = None\<rparr> sample_db
          = (Inl (IntegrityError ''uq_group_year_name''), sample_db)"
    using admin_create_group_duplicate_name[of sample_db ?cy group_G1 None] h by blast
  then show ?thesis
    by (simp add: group_G1_def)
qed

text \<open>
  Claim C5, as the code has it. \<^verbatim>\<open>parent_add_child\<close> commits the camper row, and then the
  ownership link in a second transaction. A call that fails leaves the state of before with
  the new camper row added and no link; a call that succeeds leaves the camper row and a
  link from the caller to that camper. The call fails when the caller's account row is not
  stored, and succeeds when it is stored and no link names the new camper's key.
\<close>

subsection \<open>A child and its ownership link\<close>














section \<open>Roles of accounts\<close>

subsection \<open>Operations that leave the accounts alone\<close>

lemma role_invariant_users: "users s' = users s \<Longrightarrow> role_invariant cfg s' = role_invariant cfg s"
  by (simp add: role_invariant_def)

lemma users_get_user_by_token: "users (snd (get_user_by_token now s tv)) = users s"
proof (cases "first (\<lambda>t. st_token t = tv) (session_tokens s)")
  case None
  then show ?thesis by (simp add: get_user_by_token_def)
next
  case (Some tok)
  then show ?thesis by (simp add: get_user_by_token_def delete_session_token_def)
qed

lemma users_require_auth: "users (snd (require_auth now cred s)) = users s"
proof (cases cred)
  case None
  then show ?thesis by (simp add: require_auth_def)
next
  case (Some tv)
  obtain r s1 where g: "get_user_by_token now s tv = (r, s1)"
    by (cases "get_user_by_token now s tv")
  with users_get_user_by_token[of now s tv] have "users s1 = users s" by simp
  with g Some show ?thesis
    by (cases r) (simp_all add: require_auth_def)
qed

lemma users_insert_session_token:
  "insert_session_token t uid ex s = Inr (r, s') \<Longrightarrow> users s' = users s"
  by (auto simp: insert_session_token_def Let_def split: if_splits option.splits)

lemma users_insert_camper:
  "insert_camper a b c d s = Inr (r, s') \<Longrightarrow> users s' = users s"
  by (auto simp: insert_camper_def Let_def split: option.splits)

lemma users_insert_parent_camper:
  "insert_parent_camper a b s = Inr (r, s') \<Longrightarrow> users s' = users s"
  by (auto simp: insert_parent_camper_def Let_def split: if_splits)

lemma users_insert_camp_year:
  "insert_camp_year a b s = Inr (r, s') \<Longrightarrow> users s' = users s"
  by (auto simp: insert_camp_year_def Let_def split: if_splits)

lemma users_insert_enrollment:
  "insert_enrollment a b c d s = Inr (r, s') \<Longrightarrow> users s' = users s"
  by (auto simp: insert_enrollment_def Let_def split: if_splits option.splits)

lemma users_update_enrollment:
  "update_enrollment a b c s = Inr (r, s') \<Longrightarrow> users s' = users s"
  by (auto simp: update_enrollment_def Let_def split: option.splits)

lemma users_insert_group:
  "insert_group a b c s = Inr (r, s') \<Longrightarrow> users s' = users s"
  by (auto simp: insert_group_def Let_def split: if_splits option.splits)

lemma users_insert_group_membership:
  "insert_group_membership a b s = Inr (r, s') \<Longrightarrow> users s' = users s"
  by (auto simp: insert_group_membership_def Let_def split: if_splits)

lemma users_insert_group_event:
  "insert_group_event a b c d e f s = Inr (r, s') \<Longrightarrow> users s' = users s"
  by (auto simp: insert_group_event_def Let_def split: if_splits option.splits)

lemma users_get_or_create_camp_year: "users (snd (get_or_create_camp_year s y)) = users s"
proof (cases "first (\<lambda>c. cy_year c = y) (camp_years s)")
  case (Some cy)
  then show ?thesis by (simp add: get_or_create_camp_year_def)
next
  case None
  show ?thesis
  proof (cases "insert_camp_year y False s")
    case (Inl e)
    with None show ?thesis by (simp add: get_or_create_camp_year_def)
  next
    case (Inr p)
    then obtain cy s' where p: "insert_camp_year y False s = Inr (cy, s')"
      by (cases p) simp
    with None users_insert_camp_year[OF p] show ?thesis
      by (simp add: get_or_create_camp_year_def)
  qed
qed

lemma users_create_token: "users (snd (create_token cfg now tv s u)) = users s"
proof (cases "insert_session_token tv (u_id u) (now + timedelta_minutes (TOKEN_TTL_MINUTES cfg)) s")
  case (Inl e)
  then show ?thesis by (simp add: create_token_def)
next
  case (Inr p)
  then obtain tok s' where p: "insert_session_token tv (u_id u)
      (now + timedelta_minutes (TOKEN_TTL_MINUTES cfg)) s = Inr (tok, s')"
    by (cases p) simp
  with users_insert_session_token[OF p] show ?thesis
    by (simp add: create_token_def)
qed

lemma users_login: "users (snd (login cfg now rnd payload s)) = users s"
proof (cases "first (\<lambda>u. u_email u = lr_email payload \<and> u_is_active u) (users s)")
  case None
  then show ?thesis by (simp add: login_def)
next
  case (Some u)
  show ?thesis
  proof (cases "verify_password cfg (lr_password payload) (u_password_hash u)")
    case False
    with Some show ?thesis by (simp add: login_def)
  next
    case True
    obtain r s1 where c: "create_token cfg now rnd s u = (r, s1)"
      by (cases "create_token cfg now rnd s u")
    with users_create_token[of cfg now rnd s u] have "users s1 = users s" by simp
    with Some True c show ?thesis
      by (cases r) (simp_all add: login_def)
  qed
qed

lemma users_admin_create_camper: "users (snd (admin_create_camper payload s)) = users s"
proof (cases "insert_camper (cc_first_name payload) (cc_last_name payload)
                (cc_date_of_birth payload) (cc_emergency_info payload) s")
  case (Inl e)
  then show ?thesis by (simp add: admin_create_camper_def)
next
  case (Inr p)
  then obtain c s1 where i: "insert_camper (cc_first_name payload) (cc_last_name payload)
                (cc_date_of_birth payload) (cc_emergency_info payload) s = Inr (c, s1)"
    by (cases p) simp
  with users_insert_camper[OF i] show ?thesis by (simp add: admin_create_camper_def)
qed

lemma users_parent_add_child: "users (snd (parent_add_child payload u s)) = users s"
proof (cases "insert_camper (cc_first_name payload) (cc_last_name payload)
                (cc_date_of_birth payload) (cc_emergency_info payload) s")
  case (Inl e)
  then show ?thesis by (simp add: parent_add_child_def)
next
  case (Inr p)
  then obtain c s1 where c: "insert_camper (cc_first_name payload) (cc_last_name payload)
             (cc_date_of_birth payload) (cc_emergency_info payload) s = Inr (c, s1)"
    by (cases p) simp
  note u1 = users_insert_camper[OF c]
  show ?thesis
  proof (cases "insert_parent_camper (u_id u) (c_id c) s1")
    case (Inl e)
    with c u1 show ?thesis by (simp add: parent_add_child_def)
  next
    case q: (Inr q)
    then obtain l s2 where p: "insert_parent_camper (u_id u) (c_id c) s1 = Inr (l, s2)"
      by (cases q) simp
    with c u1 users_insert_parent_camper[OF p] show ?thesis
      by (simp add: parent_add_child_def)
  qed
qed

lemma users_parent_enroll: "users (snd (parent_enroll payload u s)) = users s"
proof (cases "ensure_parent_owns_camper s (u_id u) (ec_camper_id payload)")
  case (Inl e)
  then show ?thesis by (simp add: parent_enroll_def)
next
  case (Inr x)
  obtain r s1 where g: "get_or_create_camp_year s (ec_camp_year payload) = (r, s1)"
    by (cases "get_or_create_camp_year s (ec_camp_year payload)")
  with users_get_or_create_camp_year[of s "ec_camp_year payload"] have u1: "users s1 = users s"
    by simp
  show ?thesis
  proof (cases r)
    case (Inl e)
    with Inr g u1 show ?thesis by (simp add: parent_enroll_def)
  next
    case cy: (Inr cy)
    show ?thesis
    proof (cases "first (\<lambda>e. e_camp_year_id e = cy_id cy \<and> e_camper_id e = ec_camper_id payload)
                       (enrollments s1)")
      case (Some a)
      with Inr g cy u1 show ?thesis by (simp add: parent_enroll_def)
    next
      case None
      show ?thesis
      proof (cases "insert_enrollment (cy_id cy) (ec_camper_id payload) ''pending'' None s1")
        case (Inl e)
        with Inr g cy None u1 show ?thesis by (simp add: parent_enroll_def)
      next
        case p: (Inr p)
        then obtain enr s2 where q: "insert_enrollment (cy_id cy) (ec_camper_id payload)
                                       ''pending'' None s1 = Inr (enr, s2)"
          by (cases p) simp
        with Inr g cy None u1 users_insert_enrollment[OF q] show ?thesis
          by (simp add: parent_enroll_def)
      qed
    qed
  qed
qed

lemma users_parent_update_enrollment:
  "users (snd (parent_update_enrollment i payload u s)) = users s"
proof (cases "first (\<lambda>e. e_id e = i) (enrollments s)")
  case None
  then show ?thesis by (simp add: parent_update_enrollment_def)
next
  case (Some enr)
  show ?thesis
  proof (cases "ensure_parent_owns_camper s (u_id u) (e_camper_id enr)")
    case (Inl e)
    with Some show ?thesis by (simp add: parent_update_enrollment_def)
  next
    case (Inr x)
    show ?thesis
    proof (cases "update_enrollment enr (eu_status payload) (eu_notes payload) s")
      case e: (Inl e)
      with Some Inr show ?thesis by (simp add: parent_update_enrollment_def)
    next
      case p: (Inr p)
      then obtain enr' s2 where q: "update_enrollment enr (eu_status payload) (eu_notes payload) s
                                      = Inr (enr', s2)"
        by (cases p) simp
      with Some Inr users_update_enrollment[OF q] show ?thesis
        by (simp add: parent_update_enrollment_def)
    qed
  qed
qed

lemma users_admin_create_group: "users (snd (admin_create_group payload s)) = users s"
proof -
  obtain r s1 where g: "get_or_create_camp_year s (gc_camp_year payload) = (r, s1)"
    by (cases "get_or_create_camp_year s (gc_camp_year payload)")
  with users_get_or_create_camp_year[of s "gc_camp_year payload"] have u1: "users s1 = users s"
    by simp
  show ?thesis
  proof (cases r)
    case (Inl e)
    with g u1 show ?thesis by (simp add: admin_create_group_def)
  next
    case cy: (Inr cy)
    show ?thesis
    proof (cases "insert_group (cy_id cy) (gc_name payload) (gc_description payload) s1")
      case (Inl e)
      with g cy u1 show ?thesis by (simp add: admin_create_group_def)
    next
      case (Inr p)
      then obtain grp s2 where q: "insert_group (cy_id cy) (gc_name payload)
                                     (gc_description payload) s1 = Inr (grp, s2)"
        by (cases p) simp
      with g cy u1 users_insert_group[OF q] show ?thesis
        by (simp add: admin_create_group_def)
    qed
  qed
qed

lemma users_admin_add_group_member:
  "users (snd (admin_add_group_member i payload s)) = users s"
proof (cases "insert_group_membership i (gmc_camper_id payload) s")
  case (Inl e)
  then show ?thesis
    by (simp add: admin_add_group_member_def split: option.split)
next
  case (Inr p)
  then obtain m s2 where q: "insert_group_membership i (gmc_camper_id payload) s = Inr (m, s2)"
    by (cases p) simp
  with users_insert_group_membership[OF q] show ?thesis
    by (simp add: admin_add_group_member_def split: option.split)
qed

lemma users_admin_create_event: "users (snd (admin_create_event cfg payload s)) = users s"
proof (cases "insert_group_event (gec_group_id payload) (gec_title payload)
                       (gec_description payload) (gec_location payload)
                       (timestamptz cfg (gec_start_time payload))
                       (timestamptz cfg (gec_end_time payload)) s")
  case (Inl e)
  then show ?thesis
    by (simp add: admin_create_event_def split: option.split sum.split bool.split)
next
  case (Inr p)
  then obtain ev s2 where q: "insert_group_event (gec_group_id payload) (gec_title payload)
                       (gec_description payload) (gec_location payload)
                       (timestamptz cfg (gec_start_time payload))
                       (timestamptz cfg (gec_end_time payload)) s = Inr (ev, s2)"
    by (cases p) simp
  with users_insert_group_event[OF q] show ?thesis
    by (simp add: admin_create_event_def split: option.split sum.split bool.split)
qed

lemma with_auth_inv:
  assumes "role_invariant cfg s"
    and "\<And>u s1. role_invariant cfg s1 \<Longrightarrow> role_invariant cfg (snd (h u s1))"
  shows "role_invariant cfg (snd (with_auth now cred s h))"
proof -
  obtain r s1 where g: "require_auth now cred s = (r, s1)"
    by (cases "require_auth now cred s")
  with users_require_auth[of now cred s] have "users s1 = users s" by simp
  with assms(1) have i: "role_invariant cfg s1"
    using role_invariant_users[of s1 s cfg] by simp
  show ?thesis
  proof (cases r)
    case (Inl e)
    with g i show ?thesis by (simp add: with_auth_def)
  next
    case (Inr u)
    with g assms(2)[OF i, of u] show ?thesis by (simp add: with_auth_def)
  qed
qed

lemma with_role_inv:
  assumes "role_invariant cfg s"
    and "\<And>u s1. role_invariant cfg s1 \<Longrightarrow> role_invariant cfg (snd (h u s1))"
  shows "role_invariant cfg (snd (with_role role now cred s h))"
  unfolding with_role_def
proof (rule with_auth_inv[OF assms(1)])
  fix u s1 assume i: "role_invariant cfg s1"
  show "role_invariant cfg (snd (case require_role role u of
          Inl e \<Rightarrow> (Inl e, s1) | Inr u' \<Rightarrow> h u' s1))"
    using i assms(2)[OF i] by (cases "require_role role u") simp_all
qed

lemma snd_respond: "snd (respond out r) = snd r"
  by (cases r; cases "fst r") (auto simp: respond_def)

lemma insert_user_parent:
  "insert_user email full_name pw ''parent'' True s = Inr (a, s') \<Longrightarrow>
   u_role a = ''parent'' \<and> u_is_active a \<and> users s' = users s @ [a]"
  by (auto simp: insert_user_def varchar_def Let_def split: if_splits option.splits)

lemma register_parent_result:
  "register_parent cfg payload s = (Inr a, s') \<Longrightarrow>
   u_role a = ''parent'' \<and> u_is_active a \<and> users s' = users s @ [a]"
  by (auto simp: register_parent_def split: option.splits sum.splits dest: insert_user_parent)

lemma admin_create_parent_result:
  "admin_create_parent cfg payload s = (Inr a, s') \<Longrightarrow>
   u_role a = ''parent'' \<and> u_is_active a \<and> users s' = users s @ [a]"
  by (auto simp: admin_create_parent_def split: option.splits sum.splits dest: insert_user_parent)

lemma register_parent_failure:
  "register_parent cfg payload s = (Inl e, s') \<Longrightarrow> s' = s"
  by (auto simp: register_parent_def split: option.splits sum.splits)

lemma admin_create_parent_failure:
  "admin_create_parent cfg payload s = (Inl e, s') \<Longrightarrow> s' = s"
  by (auto simp: admin_create_parent_def split: option.splits sum.splits)

lemma role_invariant_append_parent:
  "role_invariant cfg s \<Longrightarrow> users s' = users s @ [a] \<Longrightarrow> u_role a = ''parent'' \<Longrightarrow>
   role_invariant cfg s'"
  by (simp add: role_invariant_def)

lemma register_parent_inv:
  "role_invariant cfg s \<Longrightarrow> role_invariant cfg (snd (register_parent cfg payload s))"
proof -
  assume i: "role_invariant cfg s"
  obtain r s' where g: "register_parent cfg payload s = (r, s')"
    by (cases "register_parent cfg payload s")
  show ?thesis
  proof (cases r)
    case (Inl e)
    with g register_parent_failure[of cfg payload s e s'] i show ?thesis by simp
  next
    case (Inr a)
    with g register_parent_result[of cfg payload s a s'] i show ?thesis
      by (auto intro: role_invariant_append_parent)
  qed
qed

lemma admin_create_parent_inv:
  "role_invariant cfg s \<Longrightarrow> role_invariant cfg (snd (admin_create_parent cfg payload s))"
proof -
  assume i: "role_invariant cfg s"
  obtain r s' where g: "admin_create_parent cfg payload s = (r, s')"
    by (cases "admin_create_parent cfg payload s")
  show ?thesis
  proof (cases r)
    case (Inl e)
    with g admin_create_parent_failure[of cfg payload s e s'] i show ?thesis by simp
  next
    case (Inr a)
    with g admin_create_parent_result[of cfg payload s a s'] i show ?thesis
      by (auto intro: role_invariant_append_parent)
  qed
qed

lemma insert_user_admin:
  "insert_user email full_name pw ''admin'' True s = Inr (a, s') \<Longrightarrow>
   u_role a = ''admin'' \<and> varchar 255 email = Some (u_email a) \<and> users s' = users s @ [a]"
  by (auto simp: insert_user_def Let_def varchar_def[of 50] split: if_splits option.splits)

lemma seed_admin_and_year_inv:
  "role_invariant cfg s \<Longrightarrow> role_invariant cfg (snd (seed_admin_and_year cfg s))"
proof -
  assume i: "role_invariant cfg s"
  define y where "y = (case first (\<lambda>y. cy_year y = APP_SEED_CAMP_YEAR cfg) (camp_years s) of
              Some _ \<Rightarrow> Inr s
            | None \<Rightarrow> (case insert_camp_year (APP_SEED_CAMP_YEAR cfg) True s of
                         Inl e \<Rightarrow> Inl e
                       | Inr (_, s1) \<Rightarrow> Inr s1))"
  have sd: "seed_admin_and_year cfg s =
     (case y of
        Inl e \<Rightarrow> (Inl e, s)
      | Inr s1 \<Rightarrow>
          (case first (\<lambda>u. u_email u = APP_SEED_ADMIN_EMAIL cfg) (users s1) of
             Some _ \<Rightarrow> (Inr (), s1)
           | None \<Rightarrow>
               (case insert_user (APP_SEED_ADMIN_EMAIL cfg) ''Default Admin''
                       (hash_password cfg (APP_SEED_ADMIN_PASSWORD cfg)) ''admin'' True s1 of
                  Inl e \<Rightarrow> (Inl e, s1)
                | Inr (_, s2) \<Rightarrow> (Inr (), s2))))"
    unfolding y_def seed_admin_and_year_def ..
  have ys: "users s1 = users s" if "y = Inr s1" for s1
  proof (cases "first (\<lambda>y. cy_year y = APP_SEED_CAMP_YEAR cfg) (camp_years s)")
    case (Some a)
    with that show ?thesis by (simp add: y_def)
  next
    case None
    show ?thesis
    proof (cases "insert_camp_year (APP_SEED_CAMP_YEAR cfg) True s")
      case (Inl e)
      with None that show ?thesis by (simp add: y_def)
    next
      case (Inr p)
      then obtain c s' where p: "insert_camp_year (APP_SEED_CAMP_YEAR cfg) True s = Inr (c, s')"
        by (cases p) simp
      with None that users_insert_camp_year[OF p] show ?thesis by (simp add: y_def)
    qed
  qed
  show ?thesis
  proof (cases y)
    case (Inl e)
    with i show ?thesis by (simp add: sd)
  next
    case (Inr s1)
    from ys[OF Inr] i have i1: "role_invariant cfg s1"
      using role_invariant_users[of s1 s cfg] by simp
    show ?thesis
    proof (cases "first (\<lambda>u. u_email u = APP_SEED_ADMIN_EMAIL cfg) (users s1)")
      case (Some a)
      with Inr i1 show ?thesis by (simp add: sd)
    next
      case None
      show ?thesis
      proof (cases "insert_user (APP_SEED_ADMIN_EMAIL cfg) ''Default Admin''
                       (hash_password cfg (APP_SEED_ADMIN_PASSWORD cfg)) ''admin'' True s1")
        case e: (Inl e)
        with Inr None i1 show ?thesis by (simp add: sd)
      next
        case p: (Inr p)
        then obtain a s2 where q: "insert_user (APP_SEED_ADMIN_EMAIL cfg) ''Default Admin''
                       (hash_password cfg (APP_SEED_ADMIN_PASSWORD cfg)) ''admin'' True s1
                       = Inr (a, s2)"
          by (cases p) simp
        from insert_user_admin[OF q] i1 have "role_invariant cfg s2"
          by (simp add: role_invariant_def)
        with Inr None q show ?thesis by (simp add: sd)
      qed
    qed
  qed
qed

lemma app_inv:
  assumes i: "role_invariant cfg s"
  shows "role_invariant cfg (snd (app cfg now rnd cred req s))"
proof (cases req)
  case (RegisterParent p)
  with i show ?thesis by (simp add: snd_respond register_parent_inv)
next
  case (Login p)
  with i show ?thesis by (simp add: snd_respond role_invariant_users[OF users_login])
next
  case Me
  show ?thesis unfolding Me app.simps snd_respond
    by (rule with_auth_inv[OF i]) simp
next
  case (AdminCreateParent p)
  show ?thesis unfolding AdminCreateParent app.simps snd_respond
    by (rule with_role_inv[OF i]) (rule admin_create_parent_inv)
next
  case (AdminCreateCamper p)
  show ?thesis unfolding AdminCreateCamper app.simps snd_respond
    by (rule with_role_inv[OF i]) (simp add: role_invariant_users[OF users_admin_create_camper])
next
  case AdminListCampers
  show ?thesis unfolding AdminListCampers app.simps snd_respond
    by (rule with_role_inv[OF i]) simp
next
  case (ParentAddChild p)
  show ?thesis unfolding ParentAddChild app.simps snd_respond
    by (rule with_role_inv[OF i]) (simp add: role_invariant_users[OF users_parent_add_child])
next
  case ParentListChildren
  show ?thesis unfolding ParentListChildren app.simps snd_respond
    by (rule with_role_inv[OF i]) simp
next
  case (ParentEnroll p)
  show ?thesis unfolding ParentEnroll app.simps snd_respond
    by (rule with_role_inv[OF i]) (simp add: role_invariant_users[OF users_parent_enroll])
next
  case (ParentListEnrollments y)
  show ?thesis unfolding ParentListEnrollments app.simps snd_respond
    by (rule with_role_inv[OF i]) simp
next
  case (ParentUpdateEnrollment n p)
  show ?thesis unfolding ParentUpdateEnrollment app.simps snd_respond
    by (rule with_role_inv[OF i])
       (simp add: role_invariant_users[OF users_parent_update_enrollment])
next
  case (AdminCreateGroup p)
  show ?thesis unfolding AdminCreateGroup app.simps snd_respond
    by (rule with_role_inv[OF i]) (simp add: role_invariant_users[OF users_admin_create_group])
next
  case (AdminListGroups y)
  show ?thesis unfolding AdminListGroups app.simps snd_respond
    by (rule with_role_inv[OF i]) simp
next
  case (AdminAddGroupMember n p)
  show ?thesis unfolding AdminAddGroupMember app.simps snd_respond
    by (rule with_role_inv[OF i])
       (simp add: role_invariant_users[OF users_admin_add_group_member])
next
  case (AdminCreateEvent p)
  show ?thesis unfolding AdminCreateEvent app.simps snd_respond
    by (rule with_role_inv[OF i]) (simp add: role_invariant_users[OF users_admin_create_event])
next
  case (AdminListEvents g y)
  show ?thesis unfolding AdminListEvents app.simps snd_respond
    by (rule with_role_inv[OF i]) simp
next
  case (ParentViewSchedule c y)
  show ?thesis unfolding ParentViewSchedule app.simps snd_respond
    by (rule with_role_inv[OF i]) simp
qed

text \<open>
  Claim C10. An account returned by \<^verbatim>\<open>register_parent\<close> or by \<^verbatim>\<open>admin_create_parent\<close> has
  role \<^verbatim>\<open>parent\<close> and is active, and it is the one row added to the accounts. Hence every
  request to every route, and the seeding at start-up, keep this property of the state:
  every account is a parent, except an administrator with the seed e-mail address.
\<close>

theorem account_creation_keeps_roles:
  "(register_parent cfg rp s = (Inr a, s') \<longrightarrow>
      u_role a = ''parent'' \<and> u_is_active a \<and> users s' = users s @ [a]) \<and>
   (admin_create_parent cfg cp s = (Inr a, s') \<longrightarrow>
      u_role a = ''parent'' \<and> u_is_active a \<and> users s' = users s @ [a]) \<and>
   (role_invariant cfg s \<longrightarrow>
      role_invariant cfg (snd (app cfg now rnd cred req s)) \<and>
      role_invariant cfg (snd (seed_admin_and_year cfg s)))"
  using register_parent_result[of cfg rp s a s'] admin_create_parent_result[of cfg cp s a s']
    app_inv[of cfg s now rnd cred req] seed_admin_and_year_inv[of cfg s]
  by blast

theorem account_creation_keeps_roles_witness:
  "fst (register_parent sample_env
          \<lparr>rpr_email = ''n@x.org'', rpr_password = ''secretN'', rpr_full_name = ''Noa''\<rparr> sample_db)
     = Inr \<lparr>u_id = 5, u_email = ''n@x.org'', u_full_name = ''Noa'',
            u_password_hash = ''h:secretN'', u_role = ''parent'', u_is_active = True\<rparr> \<and>
   fst (admin_create_parent sample_env
          \<lparr>pcr_email = ''n@x.org'', pcr_password = ''secretN'', pcr_full_name = ''Noa''\<rparr> sample_db)
     = Inr \<lparr>u_id = 5, u_email = ''n@x.org'', u_full_name = ''Noa'',
            u_password_hash = ''h:secretN'', u_role = ''parent'', u_is_active = True\<rparr> \<and>
   role_invariant sample_env sample_db \<and>
   role_invariant sample_env
     (snd (app sample_env 1000 ''rnd'' (Some ''tokAdmin'')
        (AdminCreateParent
           \<lparr>pcr_email = ''n@x.org'', pcr_password = ''secretN'', pcr_full_name = ''Noa''\<rparr>)
        sample_db)) \<and>
   role_invariant sample_env empty_db \<and>
   role_invariant sample_env (snd (seed_admin_and_year sample_env empty_db))"
proof -
  let ?rp = "\<lparr>rpr_email = ''n@x.org'', rpr_password = ''secretN'', rpr_full_name = ''Noa''\<rparr>"
  let ?cp = "\<lparr>pcr_email = ''n@x.org'', pcr_password = ''secretN'', pcr_full_name = ''Noa''\<rparr>"
  let ?n = "\<lparr>u_id = 5, u_email = ''n@x.org'', u_full_name = ''Noa'',
            u_password_hash = ''h:secretN'', u_role = ''parent'', u_is_active = True\<rparr>"
  have R: "fst (register_parent sample_env ?rp sample_db) = Inr ?n"
    by (simp add: register_parent_def insert_user_def first_def varchar_def next_id_def Let_def
          sample_env_def sample_defs)
  have C: "fst (admin_create_parent sample_env ?cp sample_db) = Inr ?n"
    by (simp add: admin_create_parent_def insert_user_def first_def varchar_def next_id_def Let_def
          sample_env_def sample_defs)
  have i1: "role_invariant sample_env sample_db"
    by (simp add: role_invariant_def varchar_def sample_env_def sample_defs)
  have i2: "role_invariant sample_env empty_db"
    by (simp add: role_invariant_def empty_db_def)
  from account_creation_keeps_roles
         [of sample_env ?rp sample_db ?n "snd (register_parent sample_env ?rp sample_db)" ?cp
             1000 "''rnd''" "Some ''tokAdmin''" "AdminCreateParent ?cp"] i1
  have A: "role_invariant sample_env
     (snd (app sample_env 1000 ''rnd'' (Some ''tokAdmin'') (AdminCreateParent ?cp) sample_db))"
    by blast
  from account_creation_keeps_roles
         [of sample_env ?rp empty_db ?n "snd (register_parent sample_env ?rp empty_db)" ?cp
             1000 "''rnd''" "Some ''tokAdmin''" "AdminCreateParent ?cp"] i2
  have B: "role_invariant sample_env (snd (seed_admin_and_year sample_env empty_db))"
    by blast
  from R C i1 i2 A B show ?thesis by blast
qed

section \<open>The schedule view\<close>

subsection \<open>Order of the output\<close>









subsection \<open>The index of campers and their groups\<close>











subsection \<open>One parent, two campers, two groups\<close>








end
